theory Spec2Isabelle
  imports Complex_Main "HOL-Library.Log_Nat"
begin

section \<open>A shallow embedding of the tornado chart's layout engine\<close>

text \<open>
  The source is \<^verbatim>\<open>src/Clients/Visuals/visuals/samples/tornadoChart.ts\<close>, the class
  \<^verbatim>\<open>TornadoChart\<close>. Its numbers are modelled as exact rationals, and the geometry is
  the exact value of each expression; where the rounding of the engine's double
  arithmetic bears on a property, for the width of a bar, the expression is also
  evaluated with each operation rounded (\<open>getColumnWidth_double\<close>). The places where
  JavaScript leaves the finite numbers are written out: \<^verbatim>\<open>undefined\<close> and \<^verbatim>\<open>NaN\<close> among
  the bounds of the value scale (type \<open>jsnum\<close>), a division whose result is not a finite
  number (\<open>js_divide\<close> gives \<open>None\<close>), and a property read on \<^verbatim>\<open>undefined\<close> (the error
  \<open>TypeError\<close>). The mutable fields of the class are the record \<open>TornadoChart\<close>, which
  every method that assigns a field takes and returns.
\<close>

subsection \<open>Numbers\<close>

datatype jsnum = Num rat | NaN | Undefined

text \<open>\<^verbatim>\<open>a === b\<close> on numbers and \<^verbatim>\<open>undefined\<close>: \<^verbatim>\<open>NaN\<close> equals nothing, itself included.\<close>

fun strict_eq :: "jsnum \<Rightarrow> jsnum \<Rightarrow> bool" where
  "strict_eq (Num a) (Num b) = (a = b)"
| "strict_eq Undefined Undefined = True"
| "strict_eq _ _ = False"

text \<open>\<^verbatim>\<open>a / b\<close> where the result has to be a finite number: dividing by zero gives
  \<^verbatim>\<open>Infinity\<close>, \<^verbatim>\<open>-Infinity\<close> or \<^verbatim>\<open>NaN\<close>, here \<open>None\<close>.\<close>

definition js_divide :: "rat \<Rightarrow> rat \<Rightarrow> rat option" where
  "js_divide a b = (if b = 0 then None else Some (a / b))"

text \<open>\<^verbatim>\<open>Math.min(a, b)\<close>: both arguments are converted to numbers (\<^verbatim>\<open>undefined\<close> becomes
  \<^verbatim>\<open>NaN\<close>), and a \<^verbatim>\<open>NaN\<close> argument makes the result \<^verbatim>\<open>NaN\<close>.\<close>

fun Math_min :: "jsnum \<Rightarrow> jsnum \<Rightarrow> jsnum" where
  "Math_min (Num a) (Num b) = Num (if b < a then b else a)"
| "Math_min _ _ = NaN"

text \<open>Modelled from the spec: \<^verbatim>\<open>d3.min\<close> and \<^verbatim>\<open>d3.max\<close> belong to the d3 library, which is
  not under src/. The spec writes \<^verbatim>\<open>min(series[0].values)\<close> and \<^verbatim>\<open>max(series[0].values)\<close>;
  the library's functions take the first entry that is a number, then scan the rest,
  skip every \<^verbatim>\<open>undefined\<close> and \<^verbatim>\<open>NaN\<close> entry, and return \<^verbatim>\<open>undefined\<close> when no entry is
  a number.\<close>

fun d3_min_from :: "rat \<Rightarrow> jsnum list \<Rightarrow> rat" where
  "d3_min_from a [] = a"
| "d3_min_from a (Num b # xs) = d3_min_from (if a > b then b else a) xs"
| "d3_min_from a (_ # xs) = d3_min_from a xs"

fun d3_min :: "jsnum list \<Rightarrow> jsnum" where
  "d3_min [] = Undefined"
| "d3_min (Num b # xs) = Num (d3_min_from b xs)"
| "d3_min (_ # xs) = d3_min xs"

fun d3_max_from :: "rat \<Rightarrow> jsnum list \<Rightarrow> rat" where
  "d3_max_from a [] = a"
| "d3_max_from a (Num b # xs) = d3_max_from (if b > a then b else a) xs"
| "d3_max_from a (_ # xs) = d3_max_from a xs"

fun d3_max :: "jsnum list \<Rightarrow> jsnum" where
  "d3_max [] = Undefined"
| "d3_max (Num b # xs) = Num (d3_max_from b xs)"
| "d3_max (_ # xs) = d3_max xs"

subsection \<open>The data model\<close>

record TornadoChartSections =
  sec_left :: rat
  sec_right :: rat
  isPercent :: bool

record IViewport =
  vp_height :: rat
  vp_width :: rat

record IMargin =
  m_top :: rat
  m_right :: rat
  m_bottom :: rat
  m_left :: rat

record TornadoChartSeries =
  ser_fill :: string
  ser_name :: string
  ser_values :: "rat list"
  selectionId :: string

record TornadoChartSettings =
  precision :: rat
  formatter :: "rat \<Rightarrow> string"
  showLabels :: bool
  showLegend :: bool
  showCategories :: bool
  labelInsideFillColour :: string
  labelOutsideFillColour :: string
  categoriesFillColour :: string

datatype LegendIcon = Box

record LegendDataPoint =
  ldp_label :: string
  ldp_color :: string
  ldp_icon :: LegendIcon
  ldp_selected :: bool

record TornadoChartDataView =
  displayName :: string
  categories :: "string list"
  series :: "TornadoChartSeries list"
  settings :: TornadoChartSettings
  legend :: "LegendDataPoint list"

record LabelData =
  lbl_x :: rat
  lbl_y :: rat
  lbl_dx :: rat
  lbl_dy :: rat
  lbl_value :: string
  lbl_source :: rat
  lbl_colour :: string
  lbl_height :: rat
  lbl_width :: rat

record ColumnData =
  col_x :: rat
  col_y :: rat
  col_dx :: rat
  col_dy :: rat
  col_px :: rat
  col_py :: rat
  col_angle :: rat
  col_height :: rat
  col_width :: rat
  col_label :: LabelData
  col_color :: string
  col_tooltipData :: "(string \<times> string option) list"

text \<open>The fields of the class that the layout reads and assigns. The field
  \<^verbatim>\<open>viewport\<close> has no initialiser: it is undefined until \<^verbatim>\<open>setSize\<close> assigns it. So the
  chart the constructor leaves is a \<open>TornadoChartFields\<close>, without the field, and the
  chart every other method works on is a \<open>TornadoChart\<close>, which \<open>setSize\<close> makes.\<close>

record TornadoChartFields =
  columnPadding :: rat
  maxLabelWidth :: rat
  leftLabelMargin :: rat
  sections :: TornadoChartSections
  currentSections :: TornadoChartSections
  margin :: IMargin
  heightColumn :: rat
  widthLeftSection :: rat
  widthRightSection :: rat
  isSelectColumn :: bool

record TornadoChart = TornadoChartFields +
  viewport :: IViewport

text \<open>The options of the constructor that bear on the layout.\<close>

record TornadoChartConstructorOptions =
  opt_margin :: "IMargin option"
  opt_sections :: "TornadoChartSections option"
  opt_columnPadding :: "rat option"

definition MinPrecision :: rat where "MinPrecision = 0"
definition MinOpacity :: rat where "MinOpacity = 0"
definition MinColumnOpacity :: rat where "MinColumnOpacity = 2 / 10"
definition MaxOpacity :: rat where "MaxOpacity = 1"
definition MaxSizeSections :: rat where "MaxSizeSections = 100"
definition MaxSeries :: nat where "MaxSeries = 2"
definition InnerTextHeightDelta :: rat where "InnerTextHeightDelta = 2"

text \<open>The field initialisers and the constructor. An option that is absent leaves the
  initialiser, and so does a column padding of 0 (\<^verbatim>\<open>options.columnPadding || this.columnPadding\<close>);
  the current sections are a copy of the sections.\<close>

definition newTornadoChart :: "TornadoChartConstructorOptions option \<Rightarrow> TornadoChartFields" where
  "newTornadoChart tornadoChartConstructorOptions =
     (let margin0 = \<lparr> m_top = 10, m_right = 10, m_bottom = 10, m_left = 10 \<rparr>;
          sections0 = \<lparr> sec_left = 75, sec_right = 0, isPercent = False \<rparr>;
          columnPadding0 = 10;
          margin' = (case tornadoChartConstructorOptions of
                       None \<Rightarrow> margin0
                     | Some opts \<Rightarrow> (case opt_margin opts of None \<Rightarrow> margin0 | Some m \<Rightarrow> m));
          sections' = (case tornadoChartConstructorOptions of
                         None \<Rightarrow> sections0
                       | Some opts \<Rightarrow> (case opt_sections opts of None \<Rightarrow> sections0 | Some s \<Rightarrow> s));
          columnPadding' = (case tornadoChartConstructorOptions of
                              None \<Rightarrow> columnPadding0
                            | Some opts \<Rightarrow>
                                (case opt_columnPadding opts of
                                   None \<Rightarrow> columnPadding0
                                 | Some p \<Rightarrow> if p = 0 then columnPadding0 else p))
      in \<lparr> columnPadding = columnPadding', maxLabelWidth = 55, leftLabelMargin = 4,
           sections = sections', currentSections = sections', margin = margin',
           heightColumn = 0, widthLeftSection = 0, widthRightSection = 0,
           isSelectColumn = False \<rparr>)"

subsection \<open>The section sizer\<close>

text \<open>\<^verbatim>\<open>setSize\<close> assigns the viewport, on a chart fresh from the constructor as on a
  chart that has one.\<close>

definition setSize :: "'a TornadoChartFields_scheme \<Rightarrow> IViewport \<Rightarrow> TornadoChart" where
  "setSize c vp =
     \<lparr> columnPadding = columnPadding c, maxLabelWidth = maxLabelWidth c,
       leftLabelMargin = leftLabelMargin c, sections = sections c,
       currentSections = currentSections c, margin = margin c,
       heightColumn = heightColumn c, widthLeftSection = widthLeftSection c,
       widthRightSection = widthRightSection c, isSelectColumn = isSelectColumn c,
       viewport =
         \<lparr> vp_height = vp_height vp - m_top (margin c) - m_bottom (margin c),
           vp_width = vp_width vp - m_left (margin c) - m_right (margin c) \<rparr> \<rparr>"

definition getValueByPercent :: "rat \<Rightarrow> rat \<Rightarrow> bool \<Rightarrow> rat" where
  "getValueByPercent percent maxValue isPrecent =
     (if isPrecent then (percent * maxValue) / 100 else percent)"

definition updateSectionsWidth :: "TornadoChart \<Rightarrow> TornadoChart" where
  "updateSectionsWidth c =
     c\<lparr> widthLeftSection :=
           getValueByPercent (sec_left (currentSections c)) (vp_width (viewport c))
             (isPercent (currentSections c)),
        widthRightSection :=
           getValueByPercent (sec_right (currentSections c)) (vp_width (viewport c))
             (isPercent (currentSections c)) \<rparr>"

text \<open>\<^verbatim>\<open>updateSections\<close> returns at once on a null model. The model's settings are never
  null when \<^verbatim>\<open>converter\<close> built it, so that half of the guard has no branch here. The
  right section is computed from the left section just assigned.\<close>

definition updateSections :: "TornadoChart \<Rightarrow> TornadoChartDataView option \<Rightarrow> TornadoChart" where
  "updateSections c dataView =
     (case dataView of
        None \<Rightarrow> c
      | Some dv \<Rightarrow>
          (let left' = (if showCategories (settings dv) then sec_left (sections c) else 0);
               cs1 = (currentSections c)\<lparr> sec_left := left' \<rparr>;
               right' = (if isPercent cs1 then MaxSizeSections - sec_left cs1
                         else vp_width (viewport c) - sec_left cs1)
           in c\<lparr> currentSections := cs1\<lparr> sec_right := right' \<rparr> \<rparr>))"

subsection \<open>Row height\<close>

definition updateViewportHeight :: "TornadoChart \<Rightarrow> rat \<Rightarrow> TornadoChart" where
  "updateViewportHeight c legendHeight =
     c\<lparr> viewport := (viewport c)\<lparr> vp_height := vp_height (viewport c) - legendHeight \<rparr> \<rparr>"

text \<open>\<^verbatim>\<open>computeHeightColumn\<close> has no guard on the number of categories: with none, the
  quotient is not a finite number and the result is \<open>None\<close>.\<close>

definition computeHeightColumn :: "TornadoChart \<Rightarrow> TornadoChartDataView \<Rightarrow> TornadoChart option" where
  "computeHeightColumn c tornadoChartDataView =
     (let length' = length (categories tornadoChartDataView)
      in case js_divide (vp_height (viewport c) - (of_nat length' - 1) * columnPadding c)
                (of_nat length') of
           None \<Rightarrow> None
         | Some h \<Rightarrow> Some (c\<lparr> heightColumn := h \<rparr>))"

subsection \<open>Bar width\<close>

text \<open>\<^verbatim>\<open>getColumnWidth\<close>, in exact arithmetic; a bound that is not a number makes the
  quotient \<^verbatim>\<open>NaN\<close>. The evaluation in doubles follows below.\<close>

definition getColumnWidth :: "rat \<Rightarrow> jsnum \<Rightarrow> jsnum \<Rightarrow> rat \<Rightarrow> rat option" where
  "getColumnWidth value minValue maxValue width =
     (if strict_eq minValue maxValue then Some width
      else case (minValue, maxValue) of
             (Num mn, Num mx) \<Rightarrow> js_divide (width * (value - mn)) (mx - mn)
           | _ \<Rightarrow> None)"

subsection \<open>The same width in double precision\<close>

text \<open>The engine computes on IEEE 754 binary64 numbers: the result of each operation is
  the exact result rounded to the nearest of them, to the one with an even significand on
  a tie. \<open>round_double\<close> is that rounding with no bound on the exponent: \<open>binade x\<close> is the
  exponent e with \<open>2^e \<le> |x| < 2^(e+1)\<close>, the numbers near x are the multiples of the
  quantum \<open>2^(e - 52)\<close>, and of \<open>2^(-1074)\<close> below the normal range. \<open>double_of\<close> is the
  result of an operation: the rounded value, or \<open>None\<close> when that is \<open>2^1024\<close> or more in
  magnitude (its exponent is 1024 or more) and the result is \<^verbatim>\<open>Infinity\<close> or
  \<^verbatim>\<open>-Infinity\<close>. The two zeros of the doubles are one number here.\<close>

definition pow2 :: "int \<Rightarrow> rat" where
  "pow2 e = (if 0 \<le> e then 2 ^ nat e else 1 / 2 ^ nat (- e))"

definition binade :: "rat \<Rightarrow> int" where
  "binade x =
     (case quotient_of \<bar>x\<bar> of
        (p, q) \<Rightarrow>
          (let e1 = bitlen p - bitlen q - 1
           in if pow2 (e1 + 1) \<le> \<bar>x\<bar> then e1 + 1 else e1))"

definition round_half_even :: "rat \<Rightarrow> int" where
  "round_half_even x =
     (let f = \<lfloor>x\<rfloor>; d = x - of_int f
      in if d < 1 / 2 then f else if 1 / 2 < d then f + 1
         else if even f then f else f + 1)"

definition round_double :: "rat \<Rightarrow> rat" where
  "round_double x =
     (if x = 0 then 0
      else (let quantum = pow2 (max (binade x) (- 1022) - 52)
            in of_int (round_half_even (x / quantum)) * quantum))"

definition double_of :: "rat \<Rightarrow> rat option" where
  "double_of x =
     (let r = round_double x in if r \<noteq> 0 \<and> 1024 \<le> binade r then None else Some r)"

text \<open>The unit roundoff of the doubles, the largest relative error of one rounding in
  the normal range; and the magnitudes called moderate here: zero, or between \<open>2^(-200)\<close>
  and \<open>2^200\<close>. With a moderate region width and moderate differences of the values,
  every intermediate result of \<^verbatim>\<open>getColumnWidth\<close> is zero or in the normal range of the
  doubles, far from overflow, and \<open>round_double\<close> is the engine's rounding.\<close>

definition unit_roundoff :: rat where
  "unit_roundoff = 1 / 2 ^ 53"

definition moderate :: "rat \<Rightarrow> bool" where
  "moderate x = (x = 0 \<or> (1 / 2 ^ 200 \<le> x \<and> x \<le> 2 ^ 200))"

text \<open>\<^verbatim>\<open>getColumnWidth\<close> as the engine evaluates it on doubles:
  \<^verbatim>\<open>width * (value - minValue) / (maxValue - minValue)\<close>, the difference, the product, the
  other difference and the quotient each rounded. \<open>None\<close> is a result that is not a finite
  number. An infinite \<^verbatim>\<open>value - minValue\<close> or product leaves \<^verbatim>\<open>Infinity\<close> or \<^verbatim>\<open>NaN\<close>
  whatever the divisor; a finite product over an infinite divisor is 0; a finite product
  over a divisor rounded to 0 is \<^verbatim>\<open>Infinity\<close> or \<^verbatim>\<open>NaN\<close>. \<open>getColumnWidth\<close> above is the
  same expression in exact arithmetic.\<close>

definition getColumnWidth_double :: "rat \<Rightarrow> rat \<Rightarrow> rat \<Rightarrow> rat \<Rightarrow> rat option" where
  "getColumnWidth_double value minValue maxValue width =
     (if minValue = maxValue then Some width
      else case double_of (value - minValue) of
             None \<Rightarrow> None
           | Some a \<Rightarrow>
               (case double_of (width * a) of
                  None \<Rightarrow> None
                | Some p \<Rightarrow>
                    (case double_of (maxValue - minValue) of
                       None \<Rightarrow> Some 0
                     | Some b \<Rightarrow>
                         (case js_divide p b of
                            None \<Rightarrow> None
                          | Some q \<Rightarrow> double_of q))))"

subsection \<open>Labels\<close>

text \<open>The text measurement service of the host. The font is fixed once the chart is
  initialised, so each measurement is a function of the text alone.\<close>

record TextMeasurementService =
  measureSvgTextWidth :: "string \<Rightarrow> rat"
  measureSvgTextHeight :: "string \<Rightarrow> rat"
  getTailoredTextOrDefault :: "string \<Rightarrow> rat \<Rightarrow> string"

record TextData =
  td_text :: string
  td_height :: rat
  td_width :: rat

definition getTextData :: "TextMeasurementService \<Rightarrow> string \<Rightarrow> bool \<Rightarrow> bool \<Rightarrow> TextData" where
  "getTextData tms text measureWidth measureHeight =
     \<lparr> td_text = text,
       td_height = (if measureHeight then measureSvgTextHeight tms text else 0),
       td_width = (if measureWidth then measureSvgTextWidth tms text else 0) \<rparr>"

definition getLabelData ::
  "TextMeasurementService \<Rightarrow> TornadoChart \<Rightarrow> rat \<Rightarrow> rat \<Rightarrow> rat \<Rightarrow> rat \<Rightarrow> rat \<Rightarrow> rat \<Rightarrow> bool \<Rightarrow>
   (rat \<Rightarrow> string) \<Rightarrow> string \<Rightarrow> string \<Rightarrow> LabelData" where
  "getLabelData tms c value xColumn yColumn dxColumn dyColumn columnWidth isColumnPositionLeft
       valueFormatter labelInsideFillColour' labelOutsideFillColour' =
     (let textData = getTextData tms (valueFormatter value) False True;
          valueAfterValueFormatter = getTailoredTextOrDefault tms (td_text textData) (maxLabelWidth c);
          textDataAfterValueFormatter = getTextData tms valueAfterValueFormatter True False;
          (dx, colour) =
            (if columnWidth > td_width textDataAfterValueFormatter
             then (dxColumn + columnWidth / 2 - td_width textDataAfterValueFormatter / 2,
                   labelInsideFillColour')
             else ((if isColumnPositionLeft
                    then dxColumn - leftLabelMargin c - td_width textDataAfterValueFormatter
                    else dxColumn + columnWidth + leftLabelMargin c),
                   labelOutsideFillColour'))
      in \<lparr> lbl_x = xColumn, lbl_y = yColumn, lbl_dx = dx,
           lbl_dy = dyColumn + heightColumn c / 2 + td_height textData / 2 - InnerTextHeightDelta,
           lbl_value = valueAfterValueFormatter, lbl_source = value, lbl_colour = colour,
           lbl_height = td_height textData,
           lbl_width = td_width textDataAfterValueFormatter \<rparr>)"

subsection \<open>The column layout engine\<close>

text \<open>\<^verbatim>\<open>xs[i]\<close>, which is \<^verbatim>\<open>undefined\<close> out of range.\<close>

definition array_get :: "'a list \<Rightarrow> nat \<Rightarrow> 'a option" where
  "array_get xs i = (if i < length xs then Some (xs ! i) else None)"

definition getTooltipData :: "string \<Rightarrow> string option \<Rightarrow> string \<Rightarrow> string \<Rightarrow> (string \<times> string option) list" where
  "getTooltipData displayName' categoryValue seriesName value =
     [(displayName', categoryValue), (seriesName, Some value)]"

text \<open>\<^verbatim>\<open>generateColumnData\<close>. A width that is not a finite number leaves no geometry
  (\<open>None\<close>); \<^verbatim>\<open>Number(b)\<close> of a boolean is \<open>of_bool b\<close>.\<close>

definition generateColumnData ::
  "TextMeasurementService \<Rightarrow> TornadoChart \<Rightarrow> rat \<Rightarrow> jsnum \<Rightarrow> jsnum \<Rightarrow> rat \<Rightarrow> bool \<Rightarrow> bool \<Rightarrow> string \<Rightarrow>
   nat \<Rightarrow> (rat \<Rightarrow> string) \<Rightarrow> string option \<Rightarrow> string \<Rightarrow> string \<Rightarrow> string \<Rightarrow> string \<Rightarrow>
   ColumnData option" where
  "generateColumnData tms c value minValue maxValue width shiftToMiddle shiftToRight color index
       valueFormatter categoryValue seriesName displayName' labelInsideFillColour'
       labelOutsideFillColour' =
     (case getColumnWidth value minValue maxValue width of
        None \<Rightarrow> None
      | Some widthOfColumn \<Rightarrow>
          (let x = 0; y = 0;
               shift = width - widthOfColumn;
               dx = shift * of_bool shiftToMiddle + width * of_bool shiftToRight;
               dy = (heightColumn c + columnPadding c) * of_nat index;
               label = getLabelData tms c value x y dx dy widthOfColumn shiftToMiddle
                         valueFormatter labelInsideFillColour' labelOutsideFillColour';
               angle = (if shiftToMiddle then 180 else 0)
           in Some \<lparr> col_x = x, col_y = y, col_dx = dx, col_dy = dy,
                     col_px = widthOfColumn / 2, col_py = heightColumn c / 2,
                     col_angle = angle, col_height = heightColumn c,
                     col_width = widthOfColumn, col_label = label, col_color = color,
                     col_tooltipData =
                       getTooltipData displayName' categoryValue seriesName (lbl_value label) \<rparr>))"

definition generateColumnDataByValues ::
  "TextMeasurementService \<Rightarrow> TornadoChart \<Rightarrow> TornadoChartSeries \<Rightarrow> jsnum \<Rightarrow> jsnum \<Rightarrow> rat \<Rightarrow> bool \<Rightarrow>
   bool \<Rightarrow> (rat \<Rightarrow> string) \<Rightarrow> string list \<Rightarrow> string \<Rightarrow> string \<Rightarrow> string \<Rightarrow> string \<Rightarrow>
   ColumnData option list" where
  "generateColumnDataByValues tms c tornadoChartSeries minValue maxValue maxWidth shiftToRight
       shiftToMiddle valueFormatter categories' seriesName displayName' labelInsideFillColour'
       labelOutsideFillColour' =
     map (\<lambda>(index, value).
            generateColumnData tms c value minValue maxValue maxWidth shiftToMiddle shiftToRight
              (ser_fill tornadoChartSeries) index valueFormatter (array_get categories' index)
              seriesName displayName' labelInsideFillColour' labelOutsideFillColour')
         (enumerate 0 (ser_values tornadoChartSeries))"

text \<open>The first statements of \<^verbatim>\<open>generateColumnDataBySeries\<close> after its guard on an empty
  series array: the bounds of the value scale and the width each series is given.
  \<^verbatim>\<open>series[0]\<close> is read behind that guard and \<^verbatim>\<open>series[1]\<close> behind the test for two
  series, so neither read is out of range.\<close>

definition seriesScale :: "TornadoChart \<Rightarrow> TornadoChartSeries list \<Rightarrow> jsnum \<times> jsnum \<times> rat" where
  "seriesScale c series' =
     (let width = widthRightSection c;
          minValue = Math_min (d3_min (map Num (ser_values (series' ! 0)))) (Num 0);
          maxValue = d3_max (map Num (ser_values (series' ! 0)))
      in if length series' = MaxSeries
         then (d3_min [minValue, d3_min (map Num (ser_values (series' ! 1)))],
               d3_max [maxValue, d3_max (map Num (ser_values (series' ! 1)))],
               width / of_nat MaxSeries)
         else (minValue, maxValue, width))"

definition generateColumnDataBySeries ::
  "TextMeasurementService \<Rightarrow> TornadoChart \<Rightarrow> TornadoChartDataView \<Rightarrow> ColumnData option list" where
  "generateColumnDataBySeries tms c tornadoChartDataView =
     (let categories' = categories tornadoChartDataView;
          series' = series tornadoChartDataView;
          settings' = settings tornadoChartDataView
      in if length series' = 0 then []
         else (case seriesScale c series' of
                 (minValue, maxValue, width) \<Rightarrow>
                   concat (map (\<lambda>(index, currentValue).
                       (let shiftToMiddle = (index = 0 \<and> length series' = MaxSeries);
                            shiftToRight = (index = 1)
                        in generateColumnDataByValues tms c currentValue minValue maxValue width
                             shiftToRight shiftToMiddle (formatter settings') categories'
                             (ser_name currentValue) (displayName tornadoChartDataView)
                             (labelInsideFillColour settings') (labelOutsideFillColour settings')))
                     (enumerate 0 series'))))"

subsection \<open>Rendering the labels\<close>

text \<open>What \<^verbatim>\<open>renderLabels\<close> leaves on the display surface: the data join makes one element
  per column, with these attributes. The fill opacity an element is built with does not
  matter: \<^verbatim>\<open>setOpacity\<close> assigns it on the whole selection in either branch.\<close>

record LabelElement =
  le_x :: rat
  le_y :: rat
  le_display :: "string option"
  le_title :: rat
  le_transform :: "rat \<times> rat"
  le_fill :: string
  le_text :: string
  le_fill_opacity :: rat

text \<open>\<^verbatim>\<open>setOpacity\<close> on the label selection: one style for every element of it.\<close>

definition setOpacity :: "LabelElement list \<Rightarrow> rat \<Rightarrow> LabelElement list" where
  "setOpacity element opacityValue = map (\<lambda>e. e\<lparr> le_fill_opacity := opacityValue \<rparr>) element"

definition renderLabels :: "TornadoChart \<Rightarrow> ColumnData list \<Rightarrow> TornadoChartSettings \<Rightarrow> LabelElement list" where
  "renderLabels c columnsData settings' =
     (let height = (case columnsData of [] \<Rightarrow> 0 | c0 # _ \<Rightarrow> lbl_height (col_label c0));
          labelSelection =
            map (\<lambda>item.
                   (let leftBorder = 0;
                        rightBorder = sec_right (currentSections c);
                        x = lbl_x (col_label item) + lbl_dx (col_label item)
                    in \<lparr> le_x = lbl_x (col_label item), le_y = lbl_y (col_label item),
                         le_display =
                           (if leftBorder < x \<and> rightBorder > x + lbl_width (col_label item)
                            then None else Some ''none''),
                         le_title = lbl_source (col_label item),
                         le_transform = (lbl_dx (col_label item), lbl_dy (col_label item)),
                         le_fill = lbl_colour (col_label item),
                         le_text = lbl_value (col_label item),
                         le_fill_opacity = MaxOpacity \<rparr>))
                columnsData
      in if \<not> showLabels settings' \<or> height > heightColumn c
         then setOpacity labelSelection MinOpacity
         else setOpacity labelSelection MaxOpacity)"

subsection \<open>Selection\<close>

text \<open>The values \<^verbatim>\<open>setSelection\<close> compares in its filter: the callback's argument is the
  datum bound to a column, \<^verbatim>\<open>columnElements[k]\<close> is the element of the page (or
  \<^verbatim>\<open>undefined\<close> out of range), and \<^verbatim>\<open>!==\<close> compares identities. A datum is never an
  element, so the filter keeps every column; the two columns it was written to spare are
  set back to full opacity by the statements after it.\<close>

datatype node = Datum nat | Element nat | UndefinedNode

definition columnElement :: "nat \<Rightarrow> nat \<Rightarrow> node" where
  "columnElement quantityOfColumns k = (if k < quantityOfColumns then Element k else UndefinedNode)"

text \<open>The columns are the list of their fill opacities. Selecting an index out of range
  selects nothing, and the style is set on no element.\<close>

definition setSelection :: "nat \<Rightarrow> rat list \<Rightarrow> bool \<Rightarrow> rat list" where
  "setSelection currentIndexOfColumn columns selectSecondSeries =
     (let quantityOfColumns = length columns;
          shift = quantityOfColumns div 2;
          index = (if selectSecondSeries
                   then (if currentIndexOfColumn < shift then currentIndexOfColumn + shift
                         else currentIndexOfColumn - shift)
                   else currentIndexOfColumn);
          columns1 = map (\<lambda>(k, opacity).
                            if Datum k \<noteq> columnElement quantityOfColumns index \<or>
                               Datum k \<noteq> columnElement quantityOfColumns currentIndexOfColumn
                            then MinColumnOpacity else opacity)
                         (enumerate 0 columns);
          columns2 = columns1[currentIndexOfColumn := MaxOpacity]
      in if selectSecondSeries then columns2[index := MaxOpacity] else columns2)"

subsection \<open>The data normalizer\<close>

text \<open>The raw data view of the host, with every part the code tests for absence as an
  option. The property bag holds the properties the chart declares.\<close>

record DataViewObjects =
  labels_show :: "bool option"
  labels_labelPrecision :: "rat option"
  labels_insideFill :: "string option"
  labels_outsideFill :: "string option"
  legend_show :: "bool option"
  categories_show :: "bool option"
  categories_fill :: "string option"
  dataPoint_fill :: "string option"

record DataViewMetadataColumn =
  mc_displayName :: string
  mc_queryName :: string
  mc_objects :: "DataViewObjects option"

record DataViewCategoryColumn =
  cat_source :: "DataViewMetadataColumn option"
  cat_values :: "string list"

record DataViewValueColumn =
  val_source :: DataViewMetadataColumn
  val_values :: "rat list"

record DataViewCategorical =
  dvc_categories :: "DataViewCategoryColumn list option"
  dvc_values :: "DataViewValueColumn list option"

record DataViewMetadata =
  md_columns :: "DataViewMetadataColumn list option"
  md_objects :: "DataViewObjects option"

record DataView =
  dv_metadata :: "DataViewMetadata option"
  dv_categorical :: "DataViewCategorical option"

text \<open>What the host provides to the normalizer: the formatter factory
  (\<^verbatim>\<open>ValueFormatter.create\<close>, given the category column's metadata, the precision and the
  sample value) and the colour its palette allocates.\<close>

record HostServices =
  valueFormatter_create :: "DataViewMetadataColumn \<Rightarrow> rat \<Rightarrow> rat option \<Rightarrow> rat \<Rightarrow> string"
  paletteColor :: string

datatype js_error = TypeError

text \<open>The default settings have no formatter; the field is never read from them.\<close>

definition DefaultTornadoChartSettings :: TornadoChartSettings where
  "DefaultTornadoChartSettings =
     \<lparr> precision = 2, formatter = (\<lambda>_. []), showLabels = True, showLegend = True,
       showCategories = True, labelInsideFillColour = ''#fff'',
       labelOutsideFillColour = ''#777'', categoriesFillColour = ''#777'' \<rparr>"

definition DefaultFillColors :: "string list" where
  "DefaultFillColors = [''purple'', ''teal'']"

text \<open>Modelled from the spec: \<^verbatim>\<open>DataViewObjects.getValue\<close> and \<^verbatim>\<open>ColorHelper\<close> are not
  under src/. The first reads a property and falls back to the default given; the second
  is the colour-resolution policy "explicit override, then per-series palette index, then
  hardcoded default", and the chart always passes it a default, which comes before the
  palette when there is one.\<close>

definition DataViewObjects_getValue :: "DataViewObjects option \<Rightarrow> (DataViewObjects \<Rightarrow> 'a option) \<Rightarrow> 'a \<Rightarrow> 'a" where
  "DataViewObjects_getValue objects prop defaultValue =
     (case objects of
        None \<Rightarrow> defaultValue
      | Some os \<Rightarrow> (case prop os of None \<Rightarrow> defaultValue | Some v \<Rightarrow> v))"

definition getColor ::
  "HostServices \<Rightarrow> (DataViewObjects \<Rightarrow> string option) \<Rightarrow> string option \<Rightarrow> DataViewObjects option \<Rightarrow> string" where
  "getColor host properties defaultColor objects =
     DataViewObjects_getValue objects properties
       (case defaultColor of Some d \<Rightarrow> d | None \<Rightarrow> paletteColor host)"

definition getPrecision :: "DataViewObjects option \<Rightarrow> rat" where
  "getPrecision objects =
     (let precision' = DataViewObjects_getValue objects labels_labelPrecision
                          (precision DefaultTornadoChartSettings)
      in if precision' \<le> MinPrecision then MinPrecision else precision')"

definition getObjectsFromDataView :: "DataView option \<Rightarrow> DataViewObjects option" where
  "getObjectsFromDataView dataView =
     (case dataView of
        None \<Rightarrow> None
      | Some dv \<Rightarrow>
          (case dv_metadata dv of
             None \<Rightarrow> None
           | Some md \<Rightarrow> (case md_columns md of None \<Rightarrow> None | Some _ \<Rightarrow> md_objects md)))"

text \<open>\<^verbatim>\<open>parseSettings\<close> reads the category column's metadata again from the data view;
  here it is handed the metadata that \<open>converter\<close>'s guard has found.\<close>

definition parseSettings ::
  "HostServices \<Rightarrow> DataViewMetadataColumn \<Rightarrow> DataViewObjects option \<Rightarrow> rat option \<Rightarrow> TornadoChartSettings" where
  "parseSettings host categorySource objects value =
     (let precision' = getPrecision objects;
          valueFormatter = valueFormatter_create host categorySource precision' value
      in \<lparr> precision = precision', formatter = valueFormatter,
           showLabels = DataViewObjects_getValue objects labels_show
                          (showLabels DefaultTornadoChartSettings),
           showLegend = DataViewObjects_getValue objects legend_show
                          (showLegend DefaultTornadoChartSettings),
           showCategories = DataViewObjects_getValue objects categories_show
                              (showCategories DefaultTornadoChartSettings),
           labelInsideFillColour =
             getColor host labels_insideFill
               (Some (labelInsideFillColour DefaultTornadoChartSettings)) objects,
           labelOutsideFillColour =
             getColor host labels_outsideFill
               (Some (labelOutsideFillColour DefaultTornadoChartSettings)) objects,
           categoriesFillColour =
             getColor host categories_fill
               (Some (categoriesFillColour DefaultTornadoChartSettings)) objects \<rparr>)"

definition parseSeries :: "HostServices \<Rightarrow> DataViewValueColumn list \<Rightarrow> TornadoChartSeries list" where
  "parseSeries host dataViewValueColumn =
     map (\<lambda>(index, column).
            \<lparr> ser_fill = getColor host dataPoint_fill (array_get DefaultFillColors index)
                           (mc_objects (val_source column)),
              ser_name = mc_displayName (val_source column),
              ser_values = val_values column,
              selectionId = mc_queryName (val_source column) \<rparr>)
         (enumerate 0 dataViewValueColumn)"

definition getLegendData :: "TornadoChartSeries list \<Rightarrow> LegendDataPoint list" where
  "getLegendData series' =
     map (\<lambda>item. \<lparr> ldp_label = ser_name item, ldp_color = ser_fill item, ldp_icon = Box,
                    ldp_selected = False \<rparr>) series'"

text \<open>\<^verbatim>\<open>converter\<close>. Its guard returns null on each missing part, an empty category array
  included (\<^verbatim>\<open>!categories[0]\<close>). After the guard, \<^verbatim>\<open>values[0].values[0]\<close> reads a property
  of \<^verbatim>\<open>values[0]\<close>, which is \<^verbatim>\<open>undefined\<close> when the array of value columns is empty: the
  read throws.\<close>

definition converter :: "HostServices \<Rightarrow> DataView option \<Rightarrow> js_error + TornadoChartDataView option" where
  "converter host dataView =
     (case dataView of
        None \<Rightarrow> Inr None
      | Some dv \<Rightarrow>
     (case dv_categorical dv of
        None \<Rightarrow> Inr None
      | Some categorical \<Rightarrow>
     (case dvc_categories categorical of
        None \<Rightarrow> Inr None
      | Some [] \<Rightarrow> Inr None
      | Some (category0 # _) \<Rightarrow>
     (case cat_source category0 of
        None \<Rightarrow> Inr None
      | Some source \<Rightarrow>
     (case dvc_values categorical of
        None \<Rightarrow> Inr None
      | Some allValues \<Rightarrow>
          (let values' = take MaxSeries allValues;
               categories' = cat_values category0;
               displayName' = mc_displayName source;
               objects = getObjectsFromDataView dataView
           in case values' of
                [] \<Rightarrow> Inl TypeError
              | value0 # _ \<Rightarrow>
                  (let settings' = parseSettings host source objects (array_get (val_values value0) 0);
                       series' = parseSeries host values'
                   in Inr (Some \<lparr> displayName = displayName', categories = categories',
                                   series = series', settings = settings',
                                   legend = getLegendData series' \<rparr>))))))))"

subsection \<open>Comparison with a bound, and sample inputs\<close>

text \<open>\<^verbatim>\<open>a <= b\<close> on a bound of the scale: false as soon as one side is \<^verbatim>\<open>NaN\<close> or
  \<^verbatim>\<open>undefined\<close>.\<close>

fun js_le :: "jsnum \<Rightarrow> jsnum \<Rightarrow> bool" where
  "js_le (Num a) (Num b) = (a \<le> b)"
| "js_le _ _ = False"

text \<open>A host for the examples: its formatter writes nothing for zero and a mark for any
  other value (as the format string \<^verbatim>\<open>#\<close> does), its text measurement gives a text
  seven units a character and thirty units of height, an empty text none, and it
  truncates nothing.\<close>

definition sampleHost :: HostServices where
  "sampleHost =
     \<lparr> valueFormatter_create = (\<lambda>source precision' value v. if v = 0 then [] else ''#''),
       paletteColor = ''#01B8AA'' \<rparr>"

definition sampleTms :: TextMeasurementService where
  "sampleTms =
     \<lparr> measureSvgTextWidth = (\<lambda>text. 7 * of_nat (length text)),
       measureSvgTextHeight = (\<lambda>text. if text = [] then 0 else 30),
       getTailoredTextOrDefault = (\<lambda>text maxWidth. text) \<rparr>"

definition sampleSource :: "string \<Rightarrow> DataViewMetadataColumn" where
  "sampleSource n = \<lparr> mc_displayName = n, mc_queryName = n, mc_objects = None \<rparr>"

text \<open>The data view of a category column and of value columns, all parts present.\<close>

definition sampleDataView :: "string list \<Rightarrow> rat list list \<Rightarrow> DataView" where
  "sampleDataView cats cols =
     \<lparr> dv_metadata = None,
       dv_categorical = Some
         \<lparr> dvc_categories = Some [\<lparr> cat_source = Some (sampleSource ''Category''),
                                     cat_values = cats \<rparr>],
           dvc_values = Some (map (\<lambda>vs. \<lparr> val_source = sampleSource ''Measure'',
                                            val_values = vs \<rparr>) cols) \<rparr> \<rparr>"

text \<open>The model \<open>converter\<close> assembles from it (lemma \<open>converter_sample\<close> below).\<close>

definition sampleModel :: "string list \<Rightarrow> rat list list \<Rightarrow> TornadoChartDataView" where
  "sampleModel cats cols =
     (let series' = parseSeries sampleHost
                      (take MaxSeries (map (\<lambda>vs. \<lparr> val_source = sampleSource ''Measure'',
                                                     val_values = vs \<rparr>) cols))
      in \<lparr> displayName = ''Category'', categories = cats, series = series',
           settings = parseSettings sampleHost (sampleSource ''Category'') None
                        (array_get (hd cols) 0),
           legend = getLegendData series' \<rparr>)"

text \<open>The chart after the first steps of \<^verbatim>\<open>update\<close> on a viewport: \<open>setSize\<close>,
  \<open>updateSections\<close>, \<open>updateSectionsWidth\<close>.\<close>

definition sampleChart :: "rat \<Rightarrow> rat \<Rightarrow> TornadoChartDataView \<Rightarrow> TornadoChart" where
  "sampleChart h w dv =
     updateSectionsWidth
       (updateSections (setSize (newTornadoChart None) \<lparr> vp_height = h, vp_width = w \<rparr>)
          (Some dv))"

text \<open>A chart constructed with its sections in percent, the left one 30.\<close>

definition percentOptions :: TornadoChartConstructorOptions where
  "percentOptions =
     \<lparr> opt_margin = None,
       opt_sections = Some \<lparr> sec_left = 30, sec_right = 0, isPercent = True \<rparr>,
       opt_columnPadding = None \<rparr>"

text \<open>The placement rule of the spec (section 4.4) as a predicate on a column and its
  label, for a formatter and the two fills: the label shows the formatted value truncated
  to the maximum label width and has that text's measured width; when the bar is strictly
  wider than the label, the label is centred in the bar with the inside fill; otherwise
  it stands outside the bar's trailing edge, a margin away (to the left of a mirrored
  bar, to the right of any other), with the outside fill.\<close>

definition labelPlacement ::
  "TextMeasurementService \<Rightarrow> TornadoChart \<Rightarrow> (rat \<Rightarrow> string) \<Rightarrow> string \<Rightarrow> string \<Rightarrow> ColumnData \<Rightarrow> bool" where
  "labelPlacement tms c fmt inside outside col =
     (let l = col_label col in
        lbl_value l = getTailoredTextOrDefault tms (fmt (lbl_source l)) (maxLabelWidth c) \<and>
        lbl_width l = measureSvgTextWidth tms (lbl_value l) \<and>
        (if col_width col > lbl_width l
         then lbl_dx l = col_dx col + col_width col / 2 - lbl_width l / 2 \<and>
              lbl_colour l = inside
         else lbl_dx l = (if col_angle col = 180
                          then col_dx col - leftLabelMargin c - lbl_width l
                          else col_dx col + col_width col + leftLabelMargin c) \<and>
              lbl_colour l = outside))"

text \<open>The scenario of the spec, two series over the categories A and B, and a chart of
  one series.\<close>

abbreviation twoSeries :: TornadoChartDataView where
  "twoSeries \<equiv> sampleModel [''A'', ''B''] [[10, -5], [20, 15]]"

abbreviation oneSeries :: TornadoChartDataView where
  "oneSeries \<equiv> sampleModel [''A'', ''B''] [[5, 10]]"

text \<open>The same chart of one series with its categories hidden, and a data view whose
  two value columns differ in length.\<close>

abbreviation oneSeriesHidden :: TornadoChartDataView where
  "oneSeriesHidden \<equiv> oneSeries\<lparr> settings := (settings oneSeries)\<lparr> showCategories := False \<rparr> \<rparr>"

abbreviation unevenSeries :: TornadoChartDataView where
  "unevenSeries \<equiv> sampleModel [''A'', ''B''] [[10, -5], [20]]"

section \<open>Properties\<close>

subsection \<open>Bar width\<close>

lemma scale_bounds:
  fixes w :: rat
  assumes "0 \<le> w" "mn \<le> v" "v \<le> mx" "mn \<noteq> mx"
  shows "0 \<le> w * (v - mn) / (mx - mn)" and "w * (v - mn) / (mx - mn) \<le> w"
proof -
  have pos: "0 < mx - mn" using assms by simp
  show "0 \<le> w * (v - mn) / (mx - mn)" using assms pos by simp
  have "w * (v - mn) \<le> w * (mx - mn)" using assms by (simp add: mult_left_mono)
  then show "w * (v - mn) / (mx - mn) \<le> w" using pos by (simp add: pos_divide_le_eq)
qed

lemma getColumnWidth_Num:
  "getColumnWidth v (Num mn) (Num mx) w =
     Some (if mn = mx then w else w * (v - mn) / (mx - mn))"
  by (simp add: getColumnWidth_def js_divide_def)

text \<open>The rounding of \<open>round_double\<close>: \<open>binade\<close> is the exponent of its argument, and the
  result is a multiple of the quantum at most half a quantum away.\<close>

lemma pow2_powi: "pow2 e = 2 powi e"
  by (simp add: pow2_def power_int_def inverse_eq_divide power_one_over)

lemma pow2_pos: "0 < pow2 e" by (simp add: pow2_def)

lemma pow2_add: "pow2 (a + b) = pow2 a * pow2 b"
  by (simp add: pow2_powi power_int_add)

lemma pow2_diff: "pow2 (a - b) = pow2 a / pow2 b"
  by (simp add: pow2_powi power_int_diff)

lemma pow2_nat: "0 \<le> e \<Longrightarrow> pow2 e = 2 ^ nat e"
  by (simp add: pow2_def)

lemma bitlen_pow2:
  assumes "0 < p"
  shows "pow2 (bitlen p - 1) \<le> of_int p" and "of_int p < pow2 (bitlen p)"
proof -
  from assms have b: "1 \<le> bitlen p" by (simp add: bitlen_alt_def)
  from bitlen_bounds [OF assms]
  have l: "2 ^ nat (bitlen p - 1) \<le> p" and u: "p < 2 ^ nat (bitlen p)" by simp_all
  have "(of_int (2 ^ nat (bitlen p - 1)) :: rat) \<le> of_int p" using l by (simp only: of_int_le_iff)
  then show "pow2 (bitlen p - 1) \<le> of_int p" using b by (simp add: pow2_nat)
  have "(of_int p :: rat) < of_int (2 ^ nat (bitlen p))" using u by (simp only: of_int_less_iff)
  then show "of_int p < pow2 (bitlen p)" using b by (simp add: pow2_nat)
qed

lemma binade_bounds:
  assumes "x \<noteq> 0"
  shows "pow2 (binade x) \<le> \<bar>x\<bar>" and "\<bar>x\<bar> < pow2 (binade x + 1)"
proof -
  obtain p q where pq: "quotient_of \<bar>x\<bar> = (p, q)" by (cases "quotient_of \<bar>x\<bar>")
  then have q: "0 < q" and x: "\<bar>x\<bar> = of_int p / of_int q"
    by (simp_all add: quotient_of_denom_pos quotient_of_div)
  from assms have "0 < \<bar>x\<bar>" by simp
  with x q have p: "0 < p" by (simp add: zero_less_divide_iff)
  define e1 where "e1 = bitlen p - bitlen q - 1"
  note bp = bitlen_pow2 [OF p] and bq = bitlen_pow2 [OF q]
  have qpos: "(0::rat) < of_int q" using q by simp
  have low: "pow2 e1 \<le> \<bar>x\<bar>"
  proof -
    have "pow2 e1 = pow2 (bitlen p - 1) / pow2 (bitlen q)"
      by (simp add: e1_def pow2_diff [symmetric] algebra_simps)
    also have "\<dots> \<le> of_int p / pow2 (bitlen q)"
      using bp(1) pow2_pos [of "bitlen q"] by (simp add: divide_right_mono)
    also have "\<dots> \<le> of_int p / of_int q"
      using bq(2) qpos p by (simp add: frac_le)
    finally show ?thesis by (simp add: x)
  qed
  have up: "\<bar>x\<bar> < pow2 (e1 + 2)"
  proof -
    have "of_int p / of_int q < pow2 (bitlen p) / of_int q"
      using bp(2) qpos by (simp add: divide_strict_right_mono)
    also have "\<dots> \<le> pow2 (bitlen p) / pow2 (bitlen q - 1)"
      using bq(1) pow2_pos [of "bitlen q - 1"] pow2_pos [of "bitlen p"]
      by (simp add: frac_le)
    also have "\<dots> = pow2 (e1 + 2)"
      by (simp add: e1_def pow2_diff [symmetric] algebra_simps)
    finally show ?thesis by (simp add: x)
  qed
  have b: "binade x = (if pow2 (e1 + 1) \<le> \<bar>x\<bar> then e1 + 1 else e1)"
    by (simp add: binade_def pq e1_def Let_def)
  show "pow2 (binade x) \<le> \<bar>x\<bar>" using low by (simp add: b)
  show "\<bar>x\<bar> < pow2 (binade x + 1)" using up by (auto simp: b add.commute add.left_commute)
qed

lemma round_half_even_error: "\<bar>of_int (round_half_even y) - y\<bar> \<le> 1 / 2"
proof -
  have "of_int \<lfloor>y\<rfloor> \<le> y" "y < of_int \<lfloor>y\<rfloor> + 1" by linarith+
  then show ?thesis
    by (auto simp: round_half_even_def Let_def abs_le_iff)
qed

lemma round_double_error:
  assumes "x \<noteq> 0"
  shows "\<bar>round_double x - x\<bar> \<le> pow2 (max (binade x) (- 1022) - 52) / 2"
proof -
  let ?q = "pow2 (max (binade x) (- 1022) - 52)"
  have q: "0 < ?q" by (rule pow2_pos)
  have "round_double x - x = (of_int (round_half_even (x / ?q)) - x / ?q) * ?q"
    using assms q by (simp add: round_double_def Let_def left_diff_distrib)
  then have "\<bar>round_double x - x\<bar> = \<bar>of_int (round_half_even (x / ?q)) - x / ?q\<bar> * ?q"
    using q by (simp only: abs_mult abs_of_pos)
  also have "\<dots> \<le> 1 / 2 * ?q"
    using round_half_even_error [of "x / ?q"] q by (intro mult_right_mono) simp_all
  finally show ?thesis by simp
qed

lemma round_double_grid:
  "\<exists>n. round_double x = of_int n * pow2 (max (binade x) (- 1022) - 52)"
  by (cases "x = 0") (auto simp: round_double_def Let_def intro: exI [of _ 0])

text \<open>One rounding in the normal range has a relative error of at most the unit roundoff,
  and it keeps the sign. Through the three roundings of \<open>getColumnWidth_double\<close> on
  moderate operands, the width stays within 0 and the region width times 1 + 2^(-50).\<close>

lemma pow2_mono: "a \<le> b \<Longrightarrow> pow2 a \<le> pow2 b"
  by (simp add: pow2_powi power_int_increasing)

lemma binade_normal:
  assumes "pow2 (- 1022) \<le> \<bar>x\<bar>"
  shows "- 1022 \<le> binade x"
proof (rule ccontr)
  assume "\<not> - 1022 \<le> binade x"
  then have "binade x + 1 \<le> - 1022" by simp
  then have "pow2 (binade x + 1) \<le> pow2 (- 1022)" by (rule pow2_mono)
  moreover from assms pow2_pos [of "- 1022"] have "x \<noteq> 0" by auto
  then have "\<bar>x\<bar> < pow2 (binade x + 1)" by (rule binade_bounds)
  ultimately show False using assms by simp
qed

lemma round_double_rel:
  assumes "pow2 (- 1022) \<le> \<bar>x\<bar>"
  shows "\<bar>round_double x - x\<bar> \<le> \<bar>x\<bar> * unit_roundoff"
proof -
  from assms pow2_pos [of "- 1022"] have x: "x \<noteq> 0" by auto
  from binade_normal [OF assms] have m: "max (binade x) (- 1022) = binade x" by simp
  have "pow2 (binade x - 52) / 2 = pow2 (binade x) / pow2 52 / 2"
    by (simp only: pow2_diff)
  also have "\<dots> = pow2 (binade x) * unit_roundoff"
    by (simp add: pow2_def unit_roundoff_def)
  also have "\<dots> \<le> \<bar>x\<bar> * unit_roundoff"
    using binade_bounds(1) [OF x] by (intro mult_right_mono) (simp_all add: unit_roundoff_def)
  finally show ?thesis using round_double_error [OF x] by (simp only: m)
qed

lemma round_double_between:
  assumes "pow2 (- 1022) \<le> x"
  shows "x * (1 - unit_roundoff) \<le> round_double x"
    and "round_double x \<le> x * (1 + unit_roundoff)"
proof -
  from assms pow2_pos [of "- 1022"] have "0 < x" by (rule less_le_trans [rotated])
  then have "\<bar>x\<bar> = x" by simp
  with round_double_rel [of x] assms have "\<bar>round_double x - x\<bar> \<le> x * unit_roundoff" by simp
  then have "round_double x - x \<le> x * unit_roundoff" and "x - round_double x \<le> x * unit_roundoff"
    by (simp_all only: abs_le_iff minus_diff_eq)
  then show "x * (1 - unit_roundoff) \<le> round_double x"
    and "round_double x \<le> x * (1 + unit_roundoff)"
    by (simp_all add: algebra_simps)
qed

lemma round_half_even_nonneg: "0 \<le> y \<Longrightarrow> 0 \<le> round_half_even y"
  by (simp add: round_half_even_def Let_def)

lemma round_double_nonneg: "0 \<le> x \<Longrightarrow> 0 \<le> round_double x"
  using pow2_pos [of "max (binade x) (- 1022) - 52"]
  by (simp add: round_double_def Let_def round_half_even_nonneg)

lemma round_double_zero: "round_double 0 = 0"
  by (simp add: round_double_def)

lemma unit_roundoff_bounds: "0 < unit_roundoff" "unit_roundoff < 1"
  by (simp_all add: unit_roundoff_def)

lemma tolerance:
  "(1 + unit_roundoff) ^ 3 \<le> (1 + 1 / 2 ^ 50) * (1 - unit_roundoff)"
  by (simp add: unit_roundoff_def power3_eq_cube)

lemma binade_unique:
  assumes "pow2 e \<le> \<bar>x\<bar>" and "\<bar>x\<bar> < pow2 (e + 1)"
  shows "binade x = e"
proof -
  from assms(1) pow2_pos [of e] have x: "x \<noteq> 0" by auto
  note b = binade_bounds [OF x]
  have "\<not> binade x < e"
  proof
    assume "binade x < e"
    then have "pow2 (binade x + 1) \<le> pow2 e" by (intro pow2_mono) simp
    with b(2) assms(1) show False by simp
  qed
  moreover have "\<not> e < binade x"
  proof
    assume "e < binade x"
    then have "pow2 (e + 1) \<le> pow2 (binade x)" by (intro pow2_mono) simp
    with b(1) assms(2) show False by simp
  qed
  ultimately show ?thesis by simp
qed

lemma double_of_zero: "double_of 0 = Some 0"
  by (simp add: double_of_def round_double_zero)

lemma double_of_normal:
  assumes "pow2 (- 1022) \<le> x" and "x \<le> 2 ^ 1000"
  shows "double_of x = Some (round_double x)"
proof -
  note u = unit_roundoff_bounds
  from assms(1) pow2_pos [of "- 1022"] have x: "0 \<le> x" by simp
  have "round_double x \<le> x * (1 + unit_roundoff)" by (rule round_double_between(2) [OF assms(1)])
  also have "\<dots> \<le> 2 ^ 1000 * (1 + unit_roundoff)"
    using assms(2) u by (intro mult_right_mono) simp_all
  also have "\<dots> < pow2 1024" by (simp add: unit_roundoff_def pow2_def)
  finally have r: "round_double x < pow2 1024" .
  have r0: "0 \<le> round_double x" using x by (rule round_double_nonneg)
  have "\<not> 1024 \<le> binade (round_double x)" if "round_double x \<noteq> 0"
  proof
    assume "1024 \<le> binade (round_double x)"
    then have "pow2 1024 \<le> pow2 (binade (round_double x))" by (rule pow2_mono)
    also have "\<dots> \<le> \<bar>round_double x\<bar>" using that by (rule binade_bounds(1))
    finally show False using r r0 by simp
  qed
  then show ?thesis by (auto simp: double_of_def Let_def)
qed

lemma getColumnWidth_double_main:
  assumes lo: "0 < lo" "pow2 (- 1022) \<le> lo"
      "pow2 (- 1022) \<le> lo * (lo * (1 - unit_roundoff))"
      "pow2 (- 1022) \<le> lo * (lo * (1 - unit_roundoff)) * (1 - unit_roundoff)
         / (hi * (1 + unit_roundoff))"
    and hi: "hi \<le> 2 ^ 1000" "hi * (hi * (1 + unit_roundoff)) \<le> 2 ^ 1000"
      "hi * ((1 + unit_roundoff) ^ 2 / (1 - unit_roundoff)) \<le> 2 ^ 1000"
    and w: "lo \<le> w" "w \<le> hi"
    and d: "lo \<le> d1" "d1 \<le> d2" "d2 \<le> hi"
  defines "a \<equiv> round_double d1" and "b \<equiv> round_double d2"
  defines "p \<equiv> round_double (w * a)"
  shows "double_of d1 = Some a" and "double_of d2 = Some b" and "double_of (w * a) = Some p"
    and "double_of (p / b) = Some (round_double (p / b))"
    and "0 < b" and "0 \<le> round_double (p / b)"
    and "round_double (p / b) \<le> w * (1 + 1 / 2 ^ 50)"
proof -
  let ?u = unit_roundoff
  note u = unit_roundoff_bounds
  have L: "0 < 1 - ?u" and U: "0 < 1 + ?u" using u by simp_all
  have w0: "0 < w" using lo(1) w(1) by simp
  have d10: "0 < d1" using lo(1) d(1) by simp
  have d20: "0 < d2" using d10 d(2) by simp
  have hi0: "0 < hi" using d20 d(3) by simp
  have n1: "pow2 (- 1022) \<le> d1" using lo(2) d(1) by simp
  have n2: "pow2 (- 1022) \<le> d2" using n1 d(2) by simp
  have "d1 \<le> 2 ^ 1000" using d(2,3) hi(1) by simp
  with n1 show "double_of d1 = Some a" unfolding a_def by (rule double_of_normal)
  have "d2 \<le> 2 ^ 1000" using d(3) hi(1) by simp
  with n2 show "double_of d2 = Some b" unfolding b_def by (rule double_of_normal)
  note a = round_double_between [OF n1, folded a_def]
  note b = round_double_between [OF n2, folded b_def]
  have "lo * (1 - ?u) \<le> d1 * (1 - ?u)" using d(1) L by (simp add: mult_right_mono)
  with a(1) have a_lo: "lo * (1 - ?u) \<le> a" by simp
  have "0 < lo * (1 - ?u)" using lo(1) L by simp
  with a_lo have a0: "0 < a" by simp
  have "0 < d2 * (1 - ?u)" using d20 L by simp
  with b(1) show b0: "0 < b" by simp
  have wa_lo: "lo * (lo * (1 - ?u)) \<le> w * a"
    using w(1) a_lo lo(1) L by (intro mult_mono) simp_all
  then have n3: "pow2 (- 1022) \<le> w * a" using lo(3) by simp
  have "d1 * (1 + ?u) \<le> hi * (1 + ?u)" using d(2,3) U by (simp add: mult_right_mono)
  with a(2) have a_hi: "a \<le> hi * (1 + ?u)" by simp
  have "w * a \<le> hi * (hi * (1 + ?u))"
    using w(2) a_hi a0 hi0 by (intro mult_mono) simp_all
  with hi(2) have "w * a \<le> 2 ^ 1000" by simp
  with n3 show "double_of (w * a) = Some p" unfolding p_def by (rule double_of_normal)
  note p = round_double_between [OF n3, folded p_def]
  have "lo * (lo * (1 - ?u)) * (1 - ?u) \<le> w * a * (1 - ?u)"
    using wa_lo L by (simp add: mult_right_mono)
  with p(1) have p_lo: "lo * (lo * (1 - ?u)) * (1 - ?u) \<le> p" by simp
  have "0 \<le> lo * (lo * (1 - ?u)) * (1 - ?u)" using lo(1) L by simp
  with p_lo have p0: "0 \<le> p" by simp
  have "d2 * (1 + ?u) \<le> hi * (1 + ?u)" using d(3) U by (simp add: mult_right_mono)
  with b(2) have b_hi: "b \<le> hi * (1 + ?u)" by simp
  have "lo * (lo * (1 - ?u)) * (1 - ?u) / (hi * (1 + ?u)) \<le> p / b"
    using p_lo b_hi b0 p0 by (intro frac_le) simp_all
  then have n4: "pow2 (- 1022) \<le> p / b" using lo(4) by simp
  note r = round_double_between [OF n4]
  show "0 \<le> round_double (p / b)"
    using p0 b0 by (intro round_double_nonneg) simp
  have wa0: "0 \<le> w * a" using w0 a0 by simp
  have "p / b \<le> w * a * (1 + ?u) / (d2 * (1 - ?u))"
    using p(2) b(1) p0 d20 L by (intro frac_le) simp_all
  also have "\<dots> \<le> w * (d1 * (1 + ?u)) * (1 + ?u) / (d2 * (1 - ?u))"
  proof -
    have "w * a \<le> w * (d1 * (1 + ?u))" using a(2) w0 by (simp add: mult_left_mono)
    then have "w * a * (1 + ?u) \<le> w * (d1 * (1 + ?u)) * (1 + ?u)"
      using U by (simp add: mult_right_mono)
    moreover have "0 < d2 * (1 - ?u)" using d20 L by simp
    ultimately show ?thesis by (simp only: divide_right_mono less_imp_le)
  qed
  also have "\<dots> \<le> w * (d2 * (1 + ?u)) * (1 + ?u) / (d2 * (1 - ?u))"
  proof -
    have "d1 * (1 + ?u) \<le> d2 * (1 + ?u)" using d(2) U by (simp add: mult_right_mono)
    then have "w * (d1 * (1 + ?u)) \<le> w * (d2 * (1 + ?u))" using w0 by (simp add: mult_left_mono)
    then have "w * (d1 * (1 + ?u)) * (1 + ?u) \<le> w * (d2 * (1 + ?u)) * (1 + ?u)"
      using U by (simp add: mult_right_mono)
    moreover have "0 < d2 * (1 - ?u)" using d20 L by simp
    ultimately show ?thesis by (simp only: divide_right_mono less_imp_le)
  qed
  also have "\<dots> = w * ((1 + ?u) ^ 2 / (1 - ?u))"
    using d20 by (simp add: power2_eq_square)
  finally have q: "p / b \<le> w * ((1 + ?u) ^ 2 / (1 - ?u))" .
  have "0 \<le> (1 + ?u) ^ 2 / (1 - ?u)" using L by simp
  then have "w * ((1 + ?u) ^ 2 / (1 - ?u)) \<le> hi * ((1 + ?u) ^ 2 / (1 - ?u))"
    using w(2) by (rule mult_right_mono [rotated])
  with q hi(3) have "p / b \<le> 2 ^ 1000" by simp
  with n4 show "double_of (p / b) = Some (round_double (p / b))" by (rule double_of_normal)
  have "round_double (p / b) \<le> p / b * (1 + ?u)" by (rule r(2))
  also have "\<dots> \<le> w * ((1 + ?u) ^ 2 / (1 - ?u)) * (1 + ?u)"
    using q U by (intro mult_right_mono) (simp_all only: less_imp_le)
  also have "\<dots> = w * ((1 + ?u) ^ 3 / (1 - ?u))"
    by (simp add: power2_eq_square power3_eq_cube)
  also have "\<dots> \<le> w * (1 + 1 / 2 ^ 50)"
  proof -
    have "(1 + ?u) ^ 3 / (1 - ?u) \<le> 1 + 1 / 2 ^ 50"
      using tolerance L by (simp only: pos_divide_le_eq)
    then show ?thesis using w0 by (simp only: mult_left_mono less_imp_le)
  qed
  finally show "round_double (p / b) \<le> w * (1 + 1 / 2 ^ 50)" .
qed

lemma moderate_bounds:
  "(0::rat) < 1 / 2 ^ 200" "pow2 (- 1022) \<le> 1 / 2 ^ 200"
  "pow2 (- 1022) \<le> 1 / 2 ^ 200 * (1 / 2 ^ 200 * (1 - unit_roundoff))"
  "pow2 (- 1022) \<le> 1 / 2 ^ 200 * (1 / 2 ^ 200 * (1 - unit_roundoff)) * (1 - unit_roundoff)
       / (2 ^ 200 * (1 + unit_roundoff))"
  "(2::rat) ^ 200 \<le> 2 ^ 1000" "2 ^ 200 * (2 ^ 200 * (1 + unit_roundoff)) \<le> 2 ^ 1000"
  "2 ^ 200 * ((1 + unit_roundoff) ^ 2 / (1 - unit_roundoff)) \<le> 2 ^ 1000"
  by (simp_all add: pow2_def unit_roundoff_def power2_eq_square)

lemma getColumnWidth_double_bounded:
  assumes w: "0 \<le> w" "moderate w"
    and v: "mn \<le> v" "v \<le> mx" "moderate (v - mn)" "moderate (mx - mn)"
  shows "\<exists>width. getColumnWidth_double v mn mx w = Some width \<and>
           0 \<le> width \<and> width \<le> w * (1 + 1 / 2 ^ 50)"
proof (cases "mn = mx")
  case True
  have "w * 1 \<le> w * (1 + 1 / 2 ^ 50)" using w(1) by (intro mult_left_mono) simp_all
  with True w(1) show ?thesis by (simp add: getColumnWidth_double_def)
next
  case False
  with v(4) have d2: "1 / 2 ^ 200 \<le> mx - mn" "mx - mn \<le> 2 ^ 200"
    by (simp_all add: moderate_def)
  have n2: "pow2 (- 1022) \<le> mx - mn" using moderate_bounds(2) d2(1) by simp
  have "mx - mn \<le> 2 ^ 1000" using d2(2) moderate_bounds(5) by simp
  with n2 have b: "double_of (mx - mn) = Some (round_double (mx - mn))"
    by (rule double_of_normal)
  have b0: "0 < round_double (mx - mn)"
  proof -
    have "0 < mx - mn" using moderate_bounds(1) d2(1) by simp
    then have "0 < (mx - mn) * (1 - unit_roundoff)" using unit_roundoff_bounds by simp
    with round_double_between(1) [OF n2] show ?thesis by simp
  qed
  have w0: "0 \<le> w * (1 + 1 / 2 ^ 50)" using w(1) by simp
  show ?thesis
  proof (cases "v = mn")
    case True
    with False b b0 w0 show ?thesis
      by (simp add: getColumnWidth_double_def js_divide_def double_of_zero)
  next
    case vn: False
    with v(3) have d1: "1 / 2 ^ 200 \<le> v - mn" by (simp add: moderate_def)
    have le: "v - mn \<le> mx - mn" using v(2) by simp
    show ?thesis
    proof (cases "w = 0")
      case True
      have "pow2 (- 1022) \<le> v - mn" using moderate_bounds(2) d1 by simp
      moreover have "v - mn \<le> 2 ^ 1000" using le d2(2) moderate_bounds(5) by simp
      ultimately have "double_of (v - mn) = Some (round_double (v - mn))"
        by (rule double_of_normal)
      with True False b b0 show ?thesis
        by (simp add: getColumnWidth_double_def js_divide_def double_of_zero)
    next
      case wn: False
      with w(2) have lo: "1 / 2 ^ 200 \<le> w" "w \<le> 2 ^ 200" by (simp_all add: moderate_def)
      note m = getColumnWidth_double_main
                 [OF moderate_bounds(1-4) moderate_bounds(5-7) lo d1 le d2(2)]
      from False m show ?thesis
        by (simp add: getColumnWidth_double_def js_divide_def)
    qed
  qed
qed

text \<open>Outside the moderate magnitudes the width leaves the region. The difference of
  the two largest powers of two among the doubles overflows, and the width is not a
  number; and in a region three quanta of the subnormal doubles wide, the bar of the
  maximum 1/2 has the product 3/2 quanta, rounded to 2, and a width of 4 quanta.\<close>

lemma double_of_overflow: "double_of (2 ^ 1023 - (- (2 ^ 1023))) = None"
proof -
  have b: "binade (2 ^ 1024) = 1024"
    by (rule binade_unique) (simp_all add: pow2_def)
  then have r: "round_double (2 ^ 1024) = 2 ^ 1024"
    by (simp add: round_double_def round_half_even_def Let_def pow2_def)
  have e: "(2::rat) ^ 1023 - (- (2 ^ 1023)) = 2 ^ 1024" by simp
  show ?thesis unfolding double_of_def Let_def e r b by simp
qed

lemma getColumnWidth_double_overflow:
  "getColumnWidth_double (2 ^ 1023) (- (2 ^ 1023)) (2 ^ 1023) 100 = None"
  unfolding getColumnWidth_double_def double_of_overflow by simp

lemma round_double_eval:
  assumes "pow2 e \<le> \<bar>x\<bar>" and "\<bar>x\<bar> < pow2 (e + 1)"
  shows "round_double x =
    of_int (round_half_even (x / pow2 (max e (- 1022) - 52))) * pow2 (max e (- 1022) - 52)"
proof -
  from assms(1) pow2_pos [of e] have x: "x \<noteq> 0" by auto
  show ?thesis unfolding round_double_def binade_unique [OF assms] Let_def using x by simp
qed

lemma double_of_eval:
  assumes "round_double x = r" and "pow2 e \<le> \<bar>r\<bar>" and "\<bar>r\<bar> < pow2 (e + 1)"
    and "e < 1024"
  shows "double_of x = Some r"
  unfolding double_of_def Let_def assms(1) binade_unique [OF assms(2,3)] using assms(4) by simp

lemma double_of_half: "double_of (1 / 2 - 0) = Some (1 / 2)"
proof -
  have "round_double (1 / 2 - 0) = 1 / 2"
    by (subst round_double_eval [of "- 1"]) (simp_all add: pow2_def round_half_even_def)
  then show ?thesis
    by (rule double_of_eval [of _ _ "- 1"]) (simp_all add: pow2_def)
qed

lemma double_of_subnormal_product:
  "double_of (3 / 2 ^ 1074 * (1 / 2)) = Some (1 / 2 ^ 1073)"
proof -
  have "\<lfloor>3 / 2 :: rat\<rfloor> = 1" by (rule floor_unique) simp_all
  then have "round_double (3 / 2 ^ 1074 * (1 / 2)) = 1 / 2 ^ 1073"
    by (subst round_double_eval [of "- 1074"]) (simp_all add: pow2_def round_half_even_def)
  then show ?thesis
    by (rule double_of_eval [of _ _ "- 1073"]) (simp_all add: pow2_def)
qed

lemma double_of_subnormal_quotient:
  "double_of (1 / 2 ^ 1073 / (1 / 2)) = Some (1 / 2 ^ 1072)"
proof -
  have "round_double (1 / 2 ^ 1073 / (1 / 2)) = 1 / 2 ^ 1072"
    by (subst round_double_eval [of "- 1072"]) (simp_all add: pow2_def round_half_even_def)
  then show ?thesis
    by (rule double_of_eval [of _ _ "- 1072"]) (simp_all add: pow2_def)
qed

lemma getColumnWidth_double_underflow:
  "getColumnWidth_double (1 / 2) 0 (1 / 2) (3 / 2 ^ 1074) = Some (1 / 2 ^ 1072)"
proof -
  have ne: "((0::rat) = 1 / 2) = False" "((1::rat) / 2 = 0) = False" by simp_all
  show ?thesis
    by (simp only: getColumnWidth_double_def js_divide_def ne if_False option.case
          double_of_half double_of_subnormal_product double_of_subnormal_quotient)
qed

lemma getColumnWidth_double_underflow_exceeds:
  "\<not> (1 / 2 ^ 1072 :: rat) \<le> 3 / 2 ^ 1074 * (1 + 1 / 2 ^ 50)"
  by simp

text \<open>
  C1, as amended. For a region width that is not negative and a value between the
  bounds: in exact rational arithmetic \<open>getColumnWidth\<close> returns a width between 0 and the
  region width; in the double arithmetic of the engine, on moderate operands, it returns a
  width between 0 and the region width times 1 + 2^(-50). Whatever the value and the
  region width, equal bounds give the region width itself, in exact and in double
  arithmetic alike, and between numeric bounds a width is always returned: the division
  is never done with a zero denominator.
\<close>

theorem getColumnWidth_in_region:
  assumes "0 \<le> regionWidth" and "minValue \<le> v" and "v \<le> maxValue"
  shows "(\<exists>width. getColumnWidth v (Num minValue) (Num maxValue) regionWidth = Some width \<and>
                  0 \<le> width \<and> width \<le> regionWidth) \<and>
         (moderate regionWidth \<and> moderate (v - minValue) \<and> moderate (maxValue - minValue) \<longrightarrow>
            (\<exists>width. getColumnWidth_double v minValue maxValue regionWidth = Some width \<and>
                     0 \<le> width \<and> width \<le> regionWidth * (1 + 1 / 2 ^ 50))) \<and>
         (\<forall>u w. getColumnWidth u (Num minValue) (Num minValue) w = Some w) \<and>
         (\<forall>u w. getColumnWidth_double u minValue minValue w = Some w) \<and>
         (\<forall>u a b w. getColumnWidth u (Num a) (Num b) w \<noteq> None)"
proof (intro conjI impI)
  show "\<exists>width. getColumnWidth v (Num minValue) (Num maxValue) regionWidth = Some width \<and>
                 0 \<le> width \<and> width \<le> regionWidth"
    using assms scale_bounds [of regionWidth minValue v maxValue]
    by (auto simp: getColumnWidth_Num)
  show "\<exists>width. getColumnWidth_double v minValue maxValue regionWidth = Some width \<and>
                 0 \<le> width \<and> width \<le> regionWidth * (1 + 1 / 2 ^ 50)"
    if "moderate regionWidth \<and> moderate (v - minValue) \<and> moderate (maxValue - minValue)"
    using that assms by (intro getColumnWidth_double_bounded) simp_all
  show "\<forall>u w. getColumnWidth u (Num minValue) (Num minValue) w = Some w"
    by (simp add: getColumnWidth_Num)
  show "\<forall>u w. getColumnWidth_double u minValue minValue w = Some w"
    by (simp add: getColumnWidth_double_def)
  show "\<forall>u a b w. getColumnWidth u (Num a) (Num b) w \<noteq> None"
    by (simp add: getColumnWidth_Num)
qed

theorem getColumnWidth_in_region_witness:
  "(0::rat) \<le> 100 \<and> (-5::rat) \<le> 10 \<and> (10::rat) \<le> 20 \<and>
   getColumnWidth 10 (Num (-5)) (Num 20) 100 = Some 60 \<and>
   getColumnWidth 10 (Num (-5)) (Num (-5)) 100 = Some 100 \<and>
   getColumnWidth_double 10 (-5) (-5) 100 = Some 100 \<and>
   (0::rat) \<le> 305 \<and> (0::rat) \<le> round_double (181 / 100) \<and>
   moderate 305 \<and> moderate (round_double (181 / 100) - 0) \<and>
   getColumnWidth_double (round_double (181 / 100)) 0 (round_double (181 / 100)) 305
     = Some (305 + 1 / 2 ^ 44) \<and>
   (0::rat) \<le> 305 + 1 / 2 ^ 44 \<and> (305 + 1 / 2 ^ 44 :: rat) \<le> 305 * (1 + 1 / 2 ^ 50)"
proof -
  have h: "(0::rat) \<le> 100" "(-5::rat) \<le> 10" "(10::rat) \<le> 20" by simp_all
  from getColumnWidth_in_region [OF h]
  have e: "getColumnWidth 10 (Num (-5)) (Num (-5)) 100 = Some 100"
    and f: "getColumnWidth_double 10 (-5) (-5) 100 = Some 100"
    by blast+
  have g: "getColumnWidth 10 (Num (-5)) (Num 20) 100 = Some 60"
    by (simp add: getColumnWidth_Num)
  let ?d = "round_double (181 / 100)"
  have k: "(0::rat) \<le> 305" "(0::rat) \<le> ?d" "?d \<le> ?d" by code_simp+
  have m: "moderate 305" "moderate (?d - 0)" by code_simp+
  have r: "getColumnWidth_double ?d 0 ?d 305 = Some (305 + 1 / 2 ^ 44)" by code_simp
  from getColumnWidth_in_region [OF k] m
  have "\<exists>width. getColumnWidth_double ?d 0 ?d 305 = Some width \<and>
                 0 \<le> width \<and> width \<le> 305 * (1 + 1 / 2 ^ 50)"
    by blast
  then have b: "(0::rat) \<le> 305 + 1 / 2 ^ 44" "(305 + 1 / 2 ^ 44 :: rat) \<le> 305 * (1 + 1 / 2 ^ 50)"
    unfolding r by simp_all
  show ?thesis
    by (intro conjI) (fact h k m e f g r b)+
qed

text \<open>
  C1 as stated fails. It fails for a negative region width, which the section sizer
  produces on a viewport narrower than the margins and the left section together: a
  viewport 50 wide leaves 30 inside the margins and -45 for the right section, and the
  bars of the values 5 and 10 are -45/2 and -45 wide. It fails in the arithmetic of the
  engine: in a region 305 wide, the one bar of the value 1.81 (the double nearest to
  181/100), which is the maximum, has the width 305 * 1.81 / 1.81, where the product
  rounds up and the quotient comes out one unit in the last place above 305. And it
  fails at the ends of the range of the doubles: between the bounds -2^1023 and 2^1023
  the width of the maximum is not a number, and in a region of 3 * 2^(-1074) the bar of
  the maximum 1/2 is 4 * 2^(-1074) wide, a third more than the region.
\<close>

theorem getColumnWidth_outside_region_counterexample:
  "widthRightSection (sampleChart 200 50 oneSeries) = -45 \<and>
   seriesScale (sampleChart 200 50 oneSeries) (series oneSeries) = (Num 0, Num 10, -45) \<and>
   (0::rat) \<le> 5 \<and> (5::rat) \<le> 10 \<and>
   getColumnWidth 5 (Num 0) (Num 10) (-45) = Some (- (45 / 2)) \<and>
   \<not> (0::rat) \<le> - (45 / 2) \<and>
   map (map_option col_width)
     (generateColumnDataBySeries sampleTms (sampleChart 200 50 oneSeries) oneSeries)
     = [Some (- (45 / 2)), Some (- 45)] \<and>
   round_double (181 / 100) = 4075757662770299 / 2251799813685248 \<and>
   seriesScale (sampleChart 220 400 (sampleModel [''A''] [[round_double (181 / 100)]]))
     (series (sampleModel [''A''] [[round_double (181 / 100)]]))
     = (Num 0, Num (round_double (181 / 100)), 305) \<and>
   (0::rat) \<le> 305 \<and> (0::rat) \<le> round_double (181 / 100) \<and>
   getColumnWidth_double (round_double (181 / 100)) 0 (round_double (181 / 100)) 305
     = Some (305 + 1 / 2 ^ 44) \<and>
   \<not> (305 + 1 / 2 ^ 44 :: rat) \<le> 305 \<and>
   getColumnWidth_double (2 ^ 1023) (- (2 ^ 1023)) (2 ^ 1023) 100 = None \<and>
   getColumnWidth_double (1 / 2) 0 (1 / 2) (3 / 2 ^ 1074) = Some (1 / 2 ^ 1072) \<and>
   \<not> (1 / 2 ^ 1072 :: rat) \<le> 3 / 2 ^ 1074 * (1 + 1 / 2 ^ 50)"
proof -
  have a: "widthRightSection (sampleChart 200 50 oneSeries) = -45"
    "seriesScale (sampleChart 200 50 oneSeries) (series oneSeries) = (Num 0, Num 10, -45)"
    "(0::rat) \<le> 5" "(5::rat) \<le> 10"
    "getColumnWidth 5 (Num 0) (Num 10) (-45) = Some (- (45 / 2))"
    "\<not> (0::rat) \<le> - (45 / 2)"
    "map (map_option col_width)
       (generateColumnDataBySeries sampleTms (sampleChart 200 50 oneSeries) oneSeries)
       = [Some (- (45 / 2)), Some (- 45)]"
    by code_simp+
  have b: "round_double (181 / 100) = 4075757662770299 / 2251799813685248"
    "seriesScale (sampleChart 220 400 (sampleModel [''A''] [[round_double (181 / 100)]]))
       (series (sampleModel [''A''] [[round_double (181 / 100)]]))
       = (Num 0, Num (round_double (181 / 100)), 305)"
    "(0::rat) \<le> 305" "(0::rat) \<le> round_double (181 / 100)"
    "getColumnWidth_double (round_double (181 / 100)) 0 (round_double (181 / 100)) 305
       = Some (305 + 1 / 2 ^ 44)"
    "\<not> (305 + 1 / 2 ^ 44 :: rat) \<le> 305"
    by code_simp+
  show ?thesis
    by (intro conjI)
      (fact a b getColumnWidth_double_overflow getColumnWidth_double_underflow
         getColumnWidth_double_underflow_exceeds)+
qed

subsection \<open>Row height\<close>

text \<open>
  C3. With n >= 1 categories, \<open>computeHeightColumn\<close> stores a row height h with
  h * n + (n - 1) * columnPadding equal to the height of the viewport: n rows and the
  n - 1 paddings between them fill the chart height exactly.
\<close>

theorem computeHeightColumn_partition:
  assumes "1 \<le> length (categories dv)"
  shows "\<exists>c'. computeHeightColumn c dv = Some c' \<and>
           heightColumn c' * of_nat (length (categories dv)) +
             (of_nat (length (categories dv)) - 1) * columnPadding c = vp_height (viewport c)"
proof -
  from assms have "categories dv \<noteq> []" by auto
  then show ?thesis by (simp add: computeHeightColumn_def js_divide_def Let_def)
qed

theorem computeHeightColumn_partition_witness:
  "1 \<le> length (categories (sampleModel [''A'', ''B''] [[10, -5], [20, 15]])) \<and>
   (\<exists>c'. computeHeightColumn (sampleChart 220 400 (sampleModel [''A'', ''B''] [[10, -5], [20, 15]]))
            (sampleModel [''A'', ''B''] [[10, -5], [20, 15]]) = Some c' \<and>
          heightColumn c' * 2 + (2 - 1) * 10 = 200)"
proof -
  have n: "length (categories (sampleModel [''A'', ''B''] [[10, -5], [20, 15]])) = 2"
    by (simp add: sampleModel_def Let_def)
  have h: "1 \<le> length (categories (sampleModel [''A'', ''B''] [[10, -5], [20, 15]]))"
    by (simp add: n)
  have p: "columnPadding (sampleChart 220 400 (sampleModel [''A'', ''B''] [[10, -5], [20, 15]])) = 10"
    and v: "vp_height (viewport (sampleChart 220 400 (sampleModel [''A'', ''B''] [[10, -5], [20, 15]]))) = 200"
    by (simp_all add: sampleChart_def updateSectionsWidth_def updateSections_def setSize_def
        newTornadoChart_def Let_def)
  from computeHeightColumn_partition [OF h, of "sampleChart 220 400 (sampleModel [''A'', ''B''] [[10, -5], [20, 15]])"]
  show ?thesis using h by (simp add: n p v)
qed

text \<open>The rows are laid out from that height: the column of category \<open>index\<close> starts at
  (rowHeight + columnPadding) * index and is rowHeight high, so the last of n rows ends
  at the chart height.\<close>

lemma rows_fill_chart_height:
  assumes "1 \<le> length (categories dv)" and "computeHeightColumn c dv = Some c'"
    and "generateColumnData tms c' v mn mx w stm str color index fmt cat sn dn li lo = Some col"
  shows "col_height col = heightColumn c'"
    and "col_dy col = (heightColumn c' + columnPadding c') * of_nat index"
    and "index = length (categories dv) - 1 \<Longrightarrow> col_dy col + col_height col = vp_height (viewport c)"
proof -
  from assms(3) show h: "col_height col = heightColumn c'"
    and d: "col_dy col = (heightColumn c' + columnPadding c') * of_nat index"
    by (auto simp: generateColumnData_def Let_def split: option.splits)
  from assms(1) obtain m where m: "length (categories dv) = Suc m"
    by (cases "length (categories dv)") auto
  then have ne: "categories dv \<noteq> []" by auto
  from assms(2) ne have c': "columnPadding c' = columnPadding c"
    and e: "heightColumn c' * of_nat (length (categories dv)) +
            (of_nat (length (categories dv)) - 1) * columnPadding c = vp_height (viewport c)"
    by (auto simp: computeHeightColumn_def js_divide_def Let_def)
  show "col_dy col + col_height col = vp_height (viewport c)"
    if "index = length (categories dv) - 1"
    using e by (simp add: h d that m c' algebra_simps)
qed

text \<open>
  C10. \<open>computeHeightColumn\<close> divides by the number of categories without a guard. With
  at least one category the division has a finite result and a row height is stored;
  with none the quotient is not a finite number.
\<close>

theorem computeHeightColumn_defined_iff:
  "(1 \<le> length (categories dv) \<longrightarrow> (\<exists>c'. computeHeightColumn c dv = Some c')) \<and>
   (length (categories dv) = 0 \<longrightarrow> computeHeightColumn c dv = None)"
  by (cases "categories dv") (simp_all add: computeHeightColumn_def js_divide_def Let_def)

theorem computeHeightColumn_defined_iff_witness:
  "1 \<le> length (categories oneSeries) \<and>
   computeHeightColumn (sampleChart 220 400 oneSeries) oneSeries
     = Some ((sampleChart 220 400 oneSeries)\<lparr> heightColumn := 95 \<rparr>) \<and>
   length (categories (sampleModel [] [[]])) = 0 \<and>
   computeHeightColumn (sampleChart 220 400 (sampleModel [] [[]])) (sampleModel [] [[]]) = None"
proof -
  have a: "1 \<le> length (categories oneSeries)"
    and b: "length (categories (sampleModel [] [[]])) = 0"
    by (simp_all add: sampleModel_def Let_def)
  from computeHeightColumn_defined_iff
         [of "sampleModel [] [[]]" "sampleChart 220 400 (sampleModel [] [[]])"] b
  have n: "computeHeightColumn (sampleChart 220 400 (sampleModel [] [[]])) (sampleModel [] [[]])
             = None"
    by simp
  from computeHeightColumn_defined_iff [of oneSeries "sampleChart 220 400 oneSeries"] a
  obtain c' where c': "computeHeightColumn (sampleChart 220 400 oneSeries) oneSeries = Some c'"
    by blast
  have "computeHeightColumn (sampleChart 220 400 oneSeries) oneSeries
          = Some ((sampleChart 220 400 oneSeries)\<lparr> heightColumn := 95 \<rparr>)"
    by code_simp
  with a b n show ?thesis by (intro conjI)
qed

subsection \<open>Section widths\<close>

text \<open>
  C7. After \<open>updateSections\<close> and \<open>updateSectionsWidth\<close> on a chart whose current sections
  are in percent or in pixels (isPercent), with viewport width viewportWidth: the left
  section is the configured left section, or 0 when showCategories is false; the right
  section is recomputed as (isPercent ? 100 - left : viewportWidth - left) from that left
  section; and each section width in pixels is
  (isPercent ? section * viewportWidth / 100 : section), for the left and for the right
  section. The percent flag, the configured sections and the viewport are left as they
  were.
\<close>

theorem updateSections_widths:
  "(let c1 = updateSectionsWidth (updateSections c (Some dv));
        percent = isPercent (currentSections c);
        viewportWidth = vp_width (viewport c);
        left' = (if showCategories (settings dv) then sec_left (sections c) else 0);
        right' = (if percent then 100 - left' else viewportWidth - left')
    in currentSections c1 = \<lparr> sec_left = left', sec_right = right', isPercent = percent \<rparr> \<and>
       widthLeftSection c1 = (if percent then left' * viewportWidth / 100 else left') \<and>
       widthRightSection c1 = (if percent then right' * viewportWidth / 100 else right') \<and>
       sections c1 = sections c \<and> viewport c1 = viewport c \<and>
       (\<not> showCategories (settings dv) \<longrightarrow>
          sec_left (currentSections c1) = 0 \<and> widthLeftSection c1 = 0))"
  by (simp add: updateSectionsWidth_def updateSections_def getValueByPercent_def Let_def
      MaxSizeSections_def)

theorem updateSections_widths_witness:
  "\<not> showCategories (settings oneSeriesHidden) \<and> showCategories (settings oneSeries) \<and>
   (let c = updateSectionsWidth (updateSections
              (setSize (newTornadoChart (Some percentOptions)) \<lparr> vp_height = 200, vp_width = 400 \<rparr>)
              (Some oneSeries))
    in (currentSections c, widthLeftSection c, widthRightSection c)
         = (\<lparr> sec_left = 30, sec_right = 70, isPercent = True \<rparr>, 114, 266)) \<and>
   (let c = updateSectionsWidth (updateSections
              (setSize (newTornadoChart (Some percentOptions)) \<lparr> vp_height = 200, vp_width = 400 \<rparr>)
              (Some oneSeriesHidden))
    in (currentSections c, widthLeftSection c, widthRightSection c)
         = (\<lparr> sec_left = 0, sec_right = 100, isPercent = True \<rparr>, 0, 380)) \<and>
   (let c = updateSectionsWidth (updateSections
              (setSize (newTornadoChart None) \<lparr> vp_height = 200, vp_width = 400 \<rparr>)
              (Some oneSeries))
    in (currentSections c, widthLeftSection c, widthRightSection c)
         = (\<lparr> sec_left = 75, sec_right = 305, isPercent = False \<rparr>, 75, 305)) \<and>
   (let c = updateSectionsWidth (updateSections
              (setSize (newTornadoChart None) \<lparr> vp_height = 200, vp_width = 400 \<rparr>)
              (Some oneSeriesHidden))
    in (currentSections c, widthLeftSection c, widthRightSection c)
         = (\<lparr> sec_left = 0, sec_right = 380, isPercent = False \<rparr>, 0, 380))"
proof -
  let ?p = "setSize (newTornadoChart (Some percentOptions)) \<lparr> vp_height = 200, vp_width = 400 \<rparr>"
  let ?d = "setSize (newTornadoChart None) \<lparr> vp_height = 200, vp_width = 400 \<rparr>"
  have h: "\<not> showCategories (settings oneSeriesHidden)" by simp
  have v: "showCategories (settings oneSeries)" by code_simp
  have p: "isPercent (currentSections ?p)" "sec_left (sections ?p) = 30"
      "vp_width (viewport ?p) = 380"
    by (simp_all add: setSize_def newTornadoChart_def percentOptions_def Let_def)
  have d: "\<not> isPercent (currentSections ?d)" "sec_left (sections ?d) = 75"
      "vp_width (viewport ?d) = 380"
    by (simp_all add: setSize_def newTornadoChart_def Let_def)
  from updateSections_widths [of ?p oneSeries] v
  have 1: "(let c = updateSectionsWidth (updateSections ?p (Some oneSeries))
            in (currentSections c, widthLeftSection c, widthRightSection c)
                 = (\<lparr> sec_left = 30, sec_right = 70, isPercent = True \<rparr>, 114, 266))"
    by (simp add: Let_def p)
  from updateSections_widths [of ?p oneSeriesHidden] h
  have 2: "(let c = updateSectionsWidth (updateSections ?p (Some oneSeriesHidden))
            in (currentSections c, widthLeftSection c, widthRightSection c)
                 = (\<lparr> sec_left = 0, sec_right = 100, isPercent = True \<rparr>, 0, 380))"
    by (simp add: Let_def p)
  from updateSections_widths [of ?d oneSeries] v
  have 3: "(let c = updateSectionsWidth (updateSections ?d (Some oneSeries))
            in (currentSections c, widthLeftSection c, widthRightSection c)
                 = (\<lparr> sec_left = 75, sec_right = 305, isPercent = False \<rparr>, 75, 305))"
    by (simp add: Let_def d)
  from updateSections_widths [of ?d oneSeriesHidden] h
  have 4: "(let c = updateSectionsWidth (updateSections ?d (Some oneSeriesHidden))
            in (currentSections c, widthLeftSection c, widthRightSection c)
                 = (\<lparr> sec_left = 0, sec_right = 380, isPercent = False \<rparr>, 0, 380))"
    by (simp add: Let_def d)
  show ?thesis by (intro conjI) (fact h, fact v, fact 1, fact 2, fact 3, fact 4)
qed

subsection \<open>The bounds of the value scale\<close>

lemma d3_min_from_Min: "d3_min_from a (map Num xs) = Min (insert a (set xs))"
proof (induction xs arbitrary: a)
  case Nil show ?case by simp
next
  case (Cons x xs)
  have "Min (insert a (insert x (set xs))) = Min (insert (min a x) (set xs))"
    by (metis List.finite_set Min_insert Min_singleton finite_insert insert_not_empty min.assoc)
  then show ?case using Cons by (simp add: min_def)
qed

lemma d3_max_from_Max: "d3_max_from a (map Num xs) = Max (insert a (set xs))"
proof (induction xs arbitrary: a)
  case Nil show ?case by simp
next
  case (Cons x xs)
  have "Max (insert a (insert x (set xs))) = Max (insert (max a x) (set xs))"
    by (metis List.finite_set Max_insert Max_singleton finite_insert insert_not_empty max.assoc)
  then show ?case using Cons by (simp add: max_def)
qed

lemma d3_min_Num: "d3_min (map Num xs) = (if xs = [] then Undefined else Num (Min (set xs)))"
  by (cases xs) (simp_all add: d3_min_from_Min)

lemma d3_max_Num: "d3_max (map Num xs) = (if xs = [] then Undefined else Num (Max (set xs)))"
  by (cases xs) (simp_all add: d3_max_from_Max)


lemma Math_min_zero: "Math_min (Num a) (Num 0) = Num (min a 0)"
  by (simp add: min_def)

lemma d3_min_two: "d3_min [Num a, Num b] = Num (min a b)"
  by (simp add: min_def)

lemma d3_max_two: "d3_max [Num a, Num b] = Num (max a b)"
  by (simp add: max_def)

lemma d3_min_pair:
  "d3_min [Num a, d3_min (map Num ys)] = Num (Min (insert a (set ys)))"
proof (cases "ys = []")
  case True
  then show ?thesis by simp
next
  case False
  then have "d3_min (map Num ys) = Num (Min (set ys))" by (simp add: d3_min_Num)
  then have "d3_min [Num a, d3_min (map Num ys)] = Num (min a (Min (set ys)))"
    by (simp only: d3_min_two)
  moreover have "Min (insert a (set ys)) = min a (Min (set ys))"
    using False by (intro Min_insert) simp_all
  ultimately show ?thesis by simp
qed

lemma d3_max_pair:
  "d3_max [Num a, d3_max (map Num ys)] = Num (Max (insert a (set ys)))"
proof (cases "ys = []")
  case True
  then show ?thesis by simp
next
  case False
  then have "d3_max (map Num ys) = Num (Max (set ys))" by (simp add: d3_max_Num)
  then have "d3_max [Num a, d3_max (map Num ys)] = Num (max a (Max (set ys)))"
    by (simp only: d3_max_two)
  moreover have "Max (insert a (set ys)) = max a (Max (set ys))"
    using False by (intro Max_insert) simp_all
  ultimately show ?thesis by simp
qed

lemma Min_insert_Un:
  fixes A B :: "rat set"
  assumes "finite A" "finite B" "A \<noteq> {}"
  shows "Min (insert (Min (insert 0 A)) B) = Min (insert 0 (A \<union> B))"
  by (metis Min.union Min_insert Min_singleton assms(1,2,3) finite_Un
    min.assoc sup_bot.neutr_eq_iff sup_bot.right_neutral)

lemma Max_insert_Un:
  fixes A B :: "rat set"
  assumes "finite A" "finite B" "A \<noteq> {}"
  shows "Max (insert (Max A) B) = Max (A \<union> B)"
  by (metis Max.union Max_insert Max_singleton assms(1,2,3)
    sup_bot.right_neutral)

lemma seriesScale_one:
  assumes "ser_values s0 \<noteq> []"
  shows "seriesScale c [s0] =
    (Num (Min (insert 0 (set (ser_values s0)))), Num (Max (set (ser_values s0))), widthRightSection c)"
proof -
  have "Min (insert 0 (set (ser_values s0))) = min (Min (set (ser_values s0))) 0"
    using assms by (simp add: min.commute)
  then show ?thesis using assms
    by (simp add: seriesScale_def MaxSeries_def d3_min_Num d3_max_Num Let_def Math_min_zero
        del: Math_min.simps)
qed

lemma seriesScale_two:
  assumes "ser_values s0 \<noteq> []"
  shows "seriesScale c [s0, s1] =
    (Num (Min (insert 0 (set (ser_values s0) \<union> set (ser_values s1)))),
     Num (Max (set (ser_values s0) \<union> set (ser_values s1))), widthRightSection c / 2)"
proof -
  let ?A = "set (ser_values s0)" and ?B = "set (ser_values s1)"
  have ne: "?A \<noteq> {}" using assms by simp
  have m0: "Math_min (d3_min (map Num (ser_values s0))) (Num 0) = Num (Min (insert 0 ?A))"
    using assms by (simp add: d3_min_Num Math_min_zero min.commute del: Math_min.simps)
  have x0: "d3_max (map Num (ser_values s0)) = Num (Max ?A)"
    using assms by (simp add: d3_max_Num)
  have "d3_min [Num (Min (insert 0 ?A)), d3_min (map Num (ser_values s1))]
          = Num (Min (insert 0 (?A \<union> ?B)))"
    using ne by (simp only: d3_min_pair Min_insert_Un [OF _ _ ne] List.finite_set)
  moreover have "d3_max [Num (Max ?A), d3_max (map Num (ser_values s1))] = Num (Max (?A \<union> ?B))"
    using ne by (simp only: d3_max_pair Max_insert_Un [OF _ _ ne] List.finite_set)
  ultimately show ?thesis
    by (simp add: seriesScale_def MaxSeries_def Let_def m0 x0 del: Math_min.simps d3_min.simps d3_max.simps)
qed

lemma seriesScale_two_Num:
  assumes "ser_values s0 \<noteq> [] \<or> ser_values s1 \<noteq> []"
  shows "\<exists>mn mx. seriesScale c [s0, s1] = (Num mn, Num mx, widthRightSection c / 2)"
proof (cases "ser_values s0 = []")
  case False
  then show ?thesis by (simp add: seriesScale_two)
next
  case True
  with assms have "ser_values s1 \<noteq> []" by simp
  with True show ?thesis
    by (simp add: seriesScale_def MaxSeries_def Let_def d3_min_Num d3_max_Num)
qed


lemma converter_sample:
  "cols \<noteq> [] \<Longrightarrow>
   converter sampleHost (Some (sampleDataView cats cols)) = Inr (Some (sampleModel cats cols))"
  by (cases cols)
     (simp_all add: converter_def sampleDataView_def sampleModel_def sampleSource_def
       MaxSeries_def getObjectsFromDataView_def Let_def)

lemma seriesScale_encloses:
  assumes "v \<in> set (concat (map ser_values series'))"
  shows "Min (insert 0 (set (concat (map ser_values series')))) \<le> v"
    and "v \<le> Max (set (concat (map ser_values series')))"
  using assms by (simp_all only: Min_le Max_ge List.finite_set finite_insert insertI2)

text \<open>
  C2, as amended. With one or two retained series, the first of them holding at least
  one value, the two bounds are computed over all the series together: minValue is the
  minimum of 0 and of every value of every series, maxValue the maximum of every value
  of every series, and minValue is at most 0.
\<close>

theorem seriesScale_joint_bounds:
  assumes "1 \<le> length series'" and "length series' \<le> 2" and "ser_values (hd series') \<noteq> []"
  shows "fst (seriesScale c series') = Num (Min (insert 0 (set (concat (map ser_values series'))))) \<and>
         fst (snd (seriesScale c series')) = Num (Max (set (concat (map ser_values series')))) \<and>
         Min (insert 0 (set (concat (map ser_values series')))) \<le> 0"
proof -
  from assms(1,2) consider s0 where "series' = [s0]" | s0 s1 where "series' = [s0, s1]"
    by (cases series'; cases "tl series'"; cases "tl (tl series')") auto
  then have "fst (seriesScale c series') = Num (Min (insert 0 (set (concat (map ser_values series'))))) \<and>
         fst (snd (seriesScale c series')) = Num (Max (set (concat (map ser_values series'))))"
  proof cases
    case 1
    with assms(3) show ?thesis by (simp add: seriesScale_one)
  next
    case 2
    with assms(3) show ?thesis by (simp add: seriesScale_two)
  qed
  moreover have "Min (insert 0 (set (concat (map ser_values series')))) \<le> 0"
    by (rule Min_le) simp_all
  ultimately show ?thesis by simp
qed


theorem seriesScale_joint_bounds_witness:
  "1 \<le> length (series (sampleModel [''A'', ''B''] [[10, -5], [20, 15]])) \<and>
   length (series (sampleModel [''A'', ''B''] [[10, -5], [20, 15]])) \<le> 2 \<and>
   ser_values (hd (series (sampleModel [''A'', ''B''] [[10, -5], [20, 15]]))) \<noteq> [] \<and>
   fst (seriesScale (sampleChart 220 400 twoSeries) (series (sampleModel [''A'', ''B''] [[10, -5], [20, 15]])))
     = Num (-5) \<and>
   fst (snd (seriesScale (sampleChart 220 400 twoSeries) (series (sampleModel [''A'', ''B''] [[10, -5], [20, 15]]))))
     = Num 20"
proof -
  have s: "map ser_values (series (sampleModel [''A'', ''B''] [[10, -5], [20, 15]]))
             = [[10, -5], [20, 15]]"
    by (simp add: sampleModel_def parseSeries_def MaxSeries_def Let_def)
  then have l: "length (series (sampleModel [''A'', ''B''] [[10, -5], [20, 15]])) = 2"
    by (metis length_map length_Cons list.size(3) numeral_2_eq_2)
  have h: "1 \<le> length (series (sampleModel [''A'', ''B''] [[10, -5], [20, 15]]))"
      "length (series (sampleModel [''A'', ''B''] [[10, -5], [20, 15]])) \<le> 2"
      "ser_values (hd (series (sampleModel [''A'', ''B''] [[10, -5], [20, 15]]))) \<noteq> []"
    by (simp_all add: l) (simp add: sampleModel_def parseSeries_def MaxSeries_def Let_def)
  from seriesScale_joint_bounds [OF h, of "sampleChart 220 400 twoSeries"] h show ?thesis
    by (simp add: s)
qed

text \<open>
  C2 as stated fails on a data view with no rows: the one series has no value,
  \<^verbatim>\<open>d3.min\<close> of it is \<^verbatim>\<open>undefined\<close>, and \<^verbatim>\<open>Math.min(undefined, 0)\<close> is \<^verbatim>\<open>NaN\<close>, which is
  neither 0 nor at most 0.
\<close>

theorem seriesScale_no_rows_counterexample:
  "converter sampleHost (Some (sampleDataView [] [[]])) = Inr (Some (sampleModel [] [[]])) \<and>
   map ser_values (series (sampleModel [] [[]])) = [[]] \<and>
   fst (seriesScale (sampleChart 220 400 (sampleModel [] [[]])) (series (sampleModel [] [[]]))) = NaN \<and>
   \<not> js_le (fst (seriesScale (sampleChart 220 400 (sampleModel [] [[]])) (series (sampleModel [] [[]])))) (Num 0)"
proof -
  have "fst (seriesScale (sampleChart 220 400 (sampleModel [] [[]])) (series (sampleModel [] [[]]))) = NaN"
    by (simp add: sampleModel_def parseSeries_def MaxSeries_def seriesScale_def Let_def)
  moreover have "map ser_values (series (sampleModel [] [[]])) = [[]]"
    by (simp add: sampleModel_def parseSeries_def MaxSeries_def Let_def)
  ultimately show ?thesis by (simp add: converter_sample)
qed

subsection \<open>Orientation of the bars\<close>

lemma generateColumnData_Num:
  "\<exists>col. generateColumnData tms c v (Num mn) (Num mx) w stm str color index fmt cat sn dn li lo = Some col \<and>
     getColumnWidth v (Num mn) (Num mx) w = Some (col_width col) \<and>
     col_angle col = (if stm then 180 else 0) \<and>
     col_dx col = (w - col_width col) * of_bool stm + w * of_bool str \<and>
     col_dy col = (heightColumn c + columnPadding c) * of_nat index \<and>
     col_px col = col_width col / 2 \<and> col_py col = heightColumn c / 2 \<and>
     col_height col = heightColumn c \<and>
     col_label col = getLabelData tms c v 0 0 (col_dx col) (col_dy col) (col_width col) stm fmt li lo"
  by (simp add: generateColumnData_def getColumnWidth_Num Let_def)

lemma generateColumnDataByValues_nth:
  "k < length (ser_values s) \<Longrightarrow>
   generateColumnDataByValues tms c s mn mx w str stm fmt cats sn dn li lo ! k =
     generateColumnData tms c (ser_values s ! k) mn mx w stm str (ser_fill s) k fmt
       (array_get cats k) sn dn li lo"
  by (simp add: generateColumnDataByValues_def nth_enumerate_eq)

lemma generateColumnDataByValues_length:
  "length (generateColumnDataByValues tms c s mn mx w str stm fmt cats sn dn li lo) = length (ser_values s)"
  by (simp add: generateColumnDataByValues_def)

lemma generateColumnDataBySeries_two:
  "series dv = [s0, s1] \<Longrightarrow>
   generateColumnDataBySeries tms c dv =
     (case seriesScale c [s0, s1] of (mn, mx, w) \<Rightarrow>
        generateColumnDataByValues tms c s0 mn mx w False True (formatter (settings dv))
          (categories dv) (ser_name s0) (displayName dv) (labelInsideFillColour (settings dv))
          (labelOutsideFillColour (settings dv)) @
        generateColumnDataByValues tms c s1 mn mx w True False (formatter (settings dv))
          (categories dv) (ser_name s1) (displayName dv) (labelInsideFillColour (settings dv))
          (labelOutsideFillColour (settings dv)))"
  by (simp add: generateColumnDataBySeries_def Let_def MaxSeries_def enumerate_eq_zip upt_rec split: prod.splits)

lemma generateColumnDataBySeries_one:
  "series dv = [s0] \<Longrightarrow>
   generateColumnDataBySeries tms c dv =
     (case seriesScale c [s0] of (mn, mx, w) \<Rightarrow>
        generateColumnDataByValues tms c s0 mn mx w False False (formatter (settings dv))
          (categories dv) (ser_name s0) (displayName dv) (labelInsideFillColour (settings dv))
          (labelOutsideFillColour (settings dv)))"
  by (simp add: generateColumnDataBySeries_def Let_def MaxSeries_def split: prod.splits)

lemma bar_first_of_two:
  assumes "series dv = [s0, s1]" and "k < length (ser_values s0)"
  shows "\<exists>col. generateColumnDataBySeries tms c dv ! k = Some col \<and> col_angle col = 180 \<and>
           col_px col = col_width col / 2 \<and> col_py col = heightColumn c / 2 \<and>
           col_height col = heightColumn c \<and>
           col_dx col = widthRightSection c / 2 - col_width col"
proof -
  from assms(2) have "ser_values s0 \<noteq> [] \<or> ser_values s1 \<noteq> []" by auto
  then obtain mn mx where sc: "seriesScale c [s0, s1] = (Num mn, Num mx, widthRightSection c / 2)"
    using seriesScale_two_Num by blast
  let ?w = "widthRightSection c / 2"
  obtain col where col:
    "generateColumnData tms c (ser_values s0 ! k) (Num mn) (Num mx) ?w True False (ser_fill s0) k
       (formatter (settings dv)) (array_get (categories dv) k) (ser_name s0) (displayName dv)
       (labelInsideFillColour (settings dv)) (labelOutsideFillColour (settings dv)) = Some col"
    "col_angle col = (if True then 180 else 0)"
    "col_dx col = (?w - col_width col) * of_bool True + ?w * of_bool False"
    "col_px col = col_width col / 2" "col_py col = heightColumn c / 2"
    "col_height col = heightColumn c"
    using generateColumnData_Num by blast
  have "generateColumnDataBySeries tms c dv ! k = Some col"
    using assms col(1)
    by (simp add: generateColumnDataBySeries_two sc nth_append generateColumnDataByValues_length
        generateColumnDataByValues_nth)
  with col show ?thesis by simp
qed

lemma bar_second_of_two:
  assumes "series dv = [s0, s1]" and "k < length (ser_values s1)"
  shows "\<exists>col. generateColumnDataBySeries tms c dv ! (length (ser_values s0) + k) = Some col \<and>
           col_angle col = 0 \<and> col_dx col = widthRightSection c / 2"
proof -
  from assms(2) have "ser_values s0 \<noteq> [] \<or> ser_values s1 \<noteq> []" by auto
  then obtain mn mx where sc: "seriesScale c [s0, s1] = (Num mn, Num mx, widthRightSection c / 2)"
    using seriesScale_two_Num by blast
  let ?w = "widthRightSection c / 2"
  obtain col where col:
    "generateColumnData tms c (ser_values s1 ! k) (Num mn) (Num mx) ?w False True (ser_fill s1) k
       (formatter (settings dv)) (array_get (categories dv) k) (ser_name s1) (displayName dv)
       (labelInsideFillColour (settings dv)) (labelOutsideFillColour (settings dv)) = Some col"
    "col_angle col = (if False then 180 else 0)"
    "col_dx col = (?w - col_width col) * of_bool False + ?w * of_bool True"
    using generateColumnData_Num by blast
  have "generateColumnDataBySeries tms c dv ! (length (ser_values s0) + k) = Some col"
    using assms col(1)
    by (simp add: generateColumnDataBySeries_two sc nth_append generateColumnDataByValues_length
        generateColumnDataByValues_nth)
  with col show ?thesis by simp
qed

lemma bar_of_one:
  assumes "series dv = [s0]" and "k < length (ser_values s0)"
  shows "\<exists>col. generateColumnDataBySeries tms c dv ! k = Some col \<and>
           col_angle col = 0 \<and> col_dx col = 0"
proof -
  from assms(2) have "ser_values s0 \<noteq> []" by auto
  then obtain mn mx where sc: "seriesScale c [s0] = (Num mn, Num mx, widthRightSection c)"
    using seriesScale_one by blast
  let ?w = "widthRightSection c"
  obtain col where col:
    "generateColumnData tms c (ser_values s0 ! k) (Num mn) (Num mx) ?w False False (ser_fill s0) k
       (formatter (settings dv)) (array_get (categories dv) k) (ser_name s0) (displayName dv)
       (labelInsideFillColour (settings dv)) (labelOutsideFillColour (settings dv)) = Some col"
    "col_angle col = (if False then 180 else 0)"
    "col_dx col = (?w - col_width col) * of_bool False + ?w * of_bool False"
    using generateColumnData_Num by blast
  have "generateColumnDataBySeries tms c dv ! k = Some col"
    using assms col(1)
    by (simp add: generateColumnDataBySeries_one sc generateColumnDataByValues_nth)
  with col show ?thesis by simp
qed

text \<open>
  C4, as amended. In a chart of two series each bar of series 0 is mirrored: angle 180,
  pivot at (barWidth / 2, rowHeight / 2), dx = regionWidth - barWidth, where regionWidth
  is the half of the right section a series is given; each bar of series 1 has angle 0
  and dx = regionWidth. In a chart of one series each bar has angle 0 and dx = 0.
\<close>

theorem generateColumnDataBySeries_orientation:
  "(series dv = [s0, s1] \<longrightarrow>
      (\<forall>k < length (ser_values s0).
         \<exists>col. generateColumnDataBySeries tms c dv ! k = Some col \<and> col_angle col = 180 \<and>
               col_px col = col_width col / 2 \<and> col_py col = heightColumn c / 2 \<and>
               col_height col = heightColumn c \<and>
               col_dx col = widthRightSection c / 2 - col_width col) \<and>
      (\<forall>k < length (ser_values s1).
         \<exists>col. generateColumnDataBySeries tms c dv ! (length (ser_values s0) + k) = Some col \<and>
               col_angle col = 0 \<and> col_dx col = widthRightSection c / 2)) \<and>
   (series dv = [s0] \<longrightarrow>
      (\<forall>k < length (ser_values s0).
         \<exists>col. generateColumnDataBySeries tms c dv ! k = Some col \<and>
               col_angle col = 0 \<and> col_dx col = 0))"
  using bar_first_of_two [of dv s0 s1 _ tms c] bar_second_of_two [of dv s0 s1 _ tms c]
    bar_of_one [of dv s0 _ tms c]
  by blast

theorem generateColumnDataBySeries_orientation_witness:
  "map ser_values (series twoSeries) = [[10, -5], [20, 15]] \<and>
   (\<exists>col. generateColumnDataBySeries sampleTms (sampleChart 220 400 twoSeries) twoSeries ! 0
             = Some col \<and> col_angle col = 180 \<and> col_px col = col_width col / 2 \<and>
           col_dx col = 305 / 2 - col_width col) \<and>
   (\<exists>col. generateColumnDataBySeries sampleTms (sampleChart 220 400 twoSeries) twoSeries ! 2
             = Some col \<and> col_angle col = 0 \<and> col_dx col = 305 / 2) \<and>
   map ser_values (series oneSeries) = [[5, 10]] \<and>
   (\<exists>col. generateColumnDataBySeries sampleTms (sampleChart 220 400 oneSeries) oneSeries ! 0
             = Some col \<and> col_angle col = 0 \<and> col_dx col = 0)"
proof -
  let ?c2 = "sampleChart 220 400 twoSeries" and ?c1 = "sampleChart 220 400 oneSeries"
  obtain s0 s1 where two: "series twoSeries = [s0, s1]"
    and v2: "ser_values s0 = [10, -5]" "ser_values s1 = [20, 15]"
    by (simp add: sampleModel_def parseSeries_def MaxSeries_def Let_def)
  obtain t0 where one: "series oneSeries = [t0]" and v1: "ser_values t0 = [5, 10]"
    by (simp add: sampleModel_def parseSeries_def MaxSeries_def Let_def)
  have w2: "widthRightSection ?c2 = 305" and w1: "widthRightSection ?c1 = 305"
    by (simp_all add: sampleChart_def updateSectionsWidth_def updateSections_def setSize_def
        newTornadoChart_def getValueByPercent_def sampleModel_def parseSettings_def
        DataViewObjects_getValue_def DefaultTornadoChartSettings_def Let_def)
  from generateColumnDataBySeries_orientation [of twoSeries s0 s1 sampleTms ?c2] two v2
  have a: "\<exists>col. generateColumnDataBySeries sampleTms ?c2 twoSeries ! 0 = Some col \<and>
             col_angle col = 180 \<and> col_px col = col_width col / 2 \<and>
             col_dx col = widthRightSection ?c2 / 2 - col_width col"
    and b: "\<exists>col. generateColumnDataBySeries sampleTms ?c2 twoSeries ! (length (ser_values s0) + 0)
             = Some col \<and> col_angle col = 0 \<and> col_dx col = widthRightSection ?c2 / 2"
    by fastforce+
  from generateColumnDataBySeries_orientation [of oneSeries t0 s1 sampleTms ?c1] one v1
  have d: "\<exists>col. generateColumnDataBySeries sampleTms ?c1 oneSeries ! 0 = Some col \<and>
             col_angle col = 0 \<and> col_dx col = 0"
    by fastforce
  from b have b2: "\<exists>col. generateColumnDataBySeries sampleTms ?c2 twoSeries ! 2 = Some col \<and>
             col_angle col = 0 \<and> col_dx col = widthRightSection ?c2 / 2"
    by (simp add: v2 numeral_2_eq_2)
  from a b2 d show ?thesis
    by (simp add: two one v1 v2 w1 w2)
qed

text \<open>
  C4 as stated fails for the sole series of a chart of one series: its bars are not
  rotated, but they are not moved either (dx = 0), while the region is 305 wide.
\<close>

theorem generateColumnDataBySeries_one_series_counterexample:
  "map ser_values (series oneSeries) = [[5, 10]] \<and>
   widthRightSection (sampleChart 220 400 oneSeries) = 305 \<and>
   map (map_option col_dx)
     (generateColumnDataBySeries sampleTms (sampleChart 220 400 oneSeries) oneSeries)
     = [Some 0, Some 0] \<and>
   map (map_option col_angle)
     (generateColumnDataBySeries sampleTms (sampleChart 220 400 oneSeries) oneSeries)
     = [Some 0, Some 0] \<and>
   (0::rat) \<noteq> 305"
  by code_simp

subsection \<open>Label placement\<close>

lemma generateColumnData_labelPlacement:
  "\<exists>col. generateColumnData tms c v (Num mn) (Num mx) w stm str color index fmt cat sn dn li lo = Some col \<and>
     labelPlacement tms c fmt li lo col"
  by (simp add: generateColumnData_def getColumnWidth_Num getLabelData_def getTextData_def
      labelPlacement_def Let_def)

lemma generateColumnDataByValues_labelPlacement:
  assumes "b \<in> set (generateColumnDataByValues tms c s (Num mn) (Num mx) w str stm fmt cats sn dn li lo)"
  shows "\<exists>col. b = Some col \<and> labelPlacement tms c fmt li lo col"
proof -
  from assms obtain k v where
    "b = generateColumnData tms c v (Num mn) (Num mx) w stm str (ser_fill s) k fmt (array_get cats k) sn dn li lo"
    by (auto simp: generateColumnDataByValues_def)
  then show ?thesis using generateColumnData_labelPlacement by simp
qed

lemma generateColumnDataByValues_empty:
  "ser_values s = [] \<Longrightarrow>
   generateColumnDataByValues tms c s mn mx w str stm fmt cats sn dn li lo = []"
  by (simp add: generateColumnDataByValues_def)

lemma generateColumnDataBySeries_length:
  "length (generateColumnDataBySeries tms c dv) = sum_list (map (length \<circ> ser_values) (series dv))"
proof -
  have "\<And>f n. length (concat (map (\<lambda>(index, s). generateColumnDataByValues tms c s (f index s) (g index s) (h index s)
            (p index s) (q index s) fmt cats (r index s) dn li lo) (enumerate n ss)))
          = sum_list (map (length \<circ> ser_values) ss)" for ss g h p q fmt cats r dn li lo
    by (induction ss) (simp_all add: generateColumnDataByValues_length)
  then show ?thesis
    by (cases "series dv = []")
       (simp_all add: generateColumnDataBySeries_def Let_def split: prod.splits)
qed

text \<open>
  C5. In a chart of at most two series (what \<open>converter\<close> retains) there is one column
  for each value of each series, and every column has a geometry with its one label,
  placed by the rule \<open>labelPlacement\<close>: centred inside the bar with the inside fill when
  the bar is strictly wider than the truncated label, else outside the trailing edge at
  the fixed margin with the outside fill.
\<close>

theorem every_bar_one_label:
  assumes "length (series dv) \<le> 2"
  shows "length (generateColumnDataBySeries tms c dv) = sum_list (map (length \<circ> ser_values) (series dv)) \<and>
         (\<forall>b \<in> set (generateColumnDataBySeries tms c dv).
           \<exists>col. b = Some col \<and>
             labelPlacement tms c (formatter (settings dv)) (labelInsideFillColour (settings dv))
               (labelOutsideFillColour (settings dv)) col)"
proof (intro conjI ballI)
  show "length (generateColumnDataBySeries tms c dv) = sum_list (map (length \<circ> ser_values) (series dv))"
    by (rule generateColumnDataBySeries_length)
next
  fix b assume b: "b \<in> set (generateColumnDataBySeries tms c dv)"
  let ?P = "\<exists>col. b = Some col \<and>
             labelPlacement tms c (formatter (settings dv)) (labelInsideFillColour (settings dv))
               (labelOutsideFillColour (settings dv)) col"
  from assms consider "series dv = []" | s0 where "series dv = [s0]"
    | s0 s1 where "series dv = [s0, s1]"
    by (cases "series dv"; cases "tl (series dv)"; cases "tl (tl (series dv))") auto
  then show ?P
  proof cases
    case 1
    with b show ?thesis by (simp add: generateColumnDataBySeries_def Let_def)
  next
    case 2
    show ?thesis
    proof (cases "ser_values s0 = []")
      case True
      with 2 b show ?thesis
        by (simp add: generateColumnDataBySeries_one generateColumnDataByValues_empty split: prod.splits)
    next
      case False
      with 2 b show ?thesis
        by (auto simp: generateColumnDataBySeries_one seriesScale_one
            dest: generateColumnDataByValues_labelPlacement)
    qed
  next
    case 3
    show ?thesis
    proof (cases "ser_values s0 = [] \<and> ser_values s1 = []")
      case True
      with 3 b show ?thesis
        by (simp add: generateColumnDataBySeries_two generateColumnDataByValues_empty split: prod.splits)
    next
      case False
      then obtain mn mx where "seriesScale c [s0, s1] = (Num mn, Num mx, widthRightSection c / 2)"
        using seriesScale_two_Num by blast
      with 3 b show ?thesis
        by (auto simp: generateColumnDataBySeries_two dest: generateColumnDataByValues_labelPlacement)
    qed
  qed
qed

theorem every_bar_one_label_witness:
  "length (series twoSeries) \<le> 2 \<and>
   (\<exists>col. generateColumnDataBySeries sampleTms (sampleChart 220 400 twoSeries) twoSeries ! 1
            = Some col \<and>
          labelPlacement sampleTms (sampleChart 220 400 twoSeries) (formatter (settings twoSeries))
            (labelInsideFillColour (settings twoSeries))
            (labelOutsideFillColour (settings twoSeries)) col) \<and>
   map (map_option (\<lambda>col. (col_width col, lbl_width (col_label col), lbl_dx (col_label col),
                           lbl_colour (col_label col))))
     (generateColumnDataBySeries sampleTms (sampleChart 220 400 twoSeries) twoSeries)
     = [Some (183 / 2, 7, 413 / 4, ''#fff''), Some (0, 7, 283 / 2, ''#777''),
        Some (305 / 2, 7, 901 / 4, ''#fff''), Some (122, 7, 210, ''#fff'')]"
proof -
  let ?cols = "generateColumnDataBySeries sampleTms (sampleChart 220 400 twoSeries) twoSeries"
  have l: "length (series twoSeries) \<le> 2"
    by (simp add: sampleModel_def parseSeries_def MaxSeries_def Let_def)
  have v: "map (map_option (\<lambda>col. (col_width col, lbl_width (col_label col),
                 lbl_dx (col_label col), lbl_colour (col_label col)))) ?cols
     = [Some (183 / 2, 7, 413 / 4, ''#fff''), Some (0, 7, 283 / 2, ''#777''),
        Some (305 / 2, 7, 901 / 4, ''#fff''), Some (122, 7, 210, ''#fff'')]"
    by code_simp
  have "length ?cols = 4"
    using arg_cong [OF v, of length] by simp
  then have "?cols ! 1 \<in> set ?cols" by simp
  with every_bar_one_label [OF l, of sampleTms "sampleChart 220 400 twoSeries"]
  have "\<exists>col. ?cols ! 1 = Some col \<and>
          labelPlacement sampleTms (sampleChart 220 400 twoSeries) (formatter (settings twoSeries))
            (labelInsideFillColour (settings twoSeries))
            (labelOutsideFillColour (settings twoSeries)) col"
    by blast
  note e = this
  show ?thesis
    by (intro conjI) (fact l, fact e, fact v)
qed

subsection \<open>Visibility of the label layer\<close>

text \<open>
  C6, as amended. The label layer is hidden (every label at opacity 0) exactly when
  showLabels is false or the measured height of the first column's label (0 when there
  is no column) exceeds the row height; otherwise every label is at full opacity. The
  decision is one for the whole layer: every label gets the same opacity.
\<close>

theorem renderLabels_all_or_nothing:
  "map le_fill_opacity (renderLabels c columnsData st) =
     replicate (length columnsData)
       (if \<not> showLabels st \<or>
           (case columnsData of [] \<Rightarrow> 0 | c0 # _ \<Rightarrow> lbl_height (col_label c0)) > heightColumn c
        then MinOpacity else MaxOpacity)"
  by (simp add: renderLabels_def setOpacity_def Let_def map_replicate_const comp_def)

theorem renderLabels_all_or_nothing_witness:
  "showLabels (settings (sampleModel [''A'', ''B''] [[8, 0]])) \<and>
   map (lbl_height \<circ> col_label)
     (map the (generateColumnDataBySeries sampleTms
        ((sampleChart 70 400 (sampleModel [''A'', ''B''] [[8, 0]]))\<lparr> heightColumn := 20 \<rparr>)
        (sampleModel [''A'', ''B''] [[8, 0]]))) = [30, 0] \<and>
   map le_fill_opacity
     (renderLabels ((sampleChart 70 400 (sampleModel [''A'', ''B''] [[8, 0]]))\<lparr> heightColumn := 20 \<rparr>)
        (map the (generateColumnDataBySeries sampleTms
           ((sampleChart 70 400 (sampleModel [''A'', ''B''] [[8, 0]]))\<lparr> heightColumn := 20 \<rparr>)
           (sampleModel [''A'', ''B''] [[8, 0]])))
        (settings (sampleModel [''A'', ''B''] [[8, 0]]))) = [MinOpacity, MinOpacity]"
proof -
  let ?dv = "sampleModel [''A'', ''B''] [[8, 0]]"
  let ?c = "(sampleChart 70 400 ?dv)\<lparr> heightColumn := 20 \<rparr>"
  let ?cols = "map the (generateColumnDataBySeries sampleTms ?c ?dv)"
  have s: "showLabels (settings ?dv)" by code_simp
  have h: "map (lbl_height \<circ> col_label) ?cols = [30, 0]" by code_simp
  then obtain c0 c1 where cols: "?cols = [c0, c1]" and h0: "lbl_height (col_label c0) = 30"
    by (auto simp: map_eq_Cons_conv simp del: map_map)
  have r: "heightColumn ?c = 20" by simp
  have "map le_fill_opacity (renderLabels ?c [c0, c1] (settings ?dv)) = [MinOpacity, MinOpacity]"
    using renderLabels_all_or_nothing [of ?c "[c0, c1]" "settings ?dv"]
    by (simp add: h0 r s)
  then have o: "map le_fill_opacity (renderLabels ?c ?cols (settings ?dv)) = [MinOpacity, MinOpacity]"
    by (simp only: cols)
  show ?thesis by (intro conjI) (fact s, fact h, fact o)
qed

text \<open>
  C6 as stated fails when a label other than the first is the one too tall: only the
  first column's label is measured against the row. Here the first value is formatted to
  the empty text, of height 0, the second label is 30 high in rows of height 20, and the
  layer stays at full opacity.
\<close>

theorem renderLabels_first_label_counterexample:
  "computeHeightColumn (sampleChart 70 400 (sampleModel [''A'', ''B''] [[0, 8]]))
      (sampleModel [''A'', ''B''] [[0, 8]])
     = Some ((sampleChart 70 400 (sampleModel [''A'', ''B''] [[0, 8]]))\<lparr> heightColumn := 20 \<rparr>) \<and>
   showLabels (settings (sampleModel [''A'', ''B''] [[0, 8]])) \<and>
   map (map_option (lbl_height \<circ> col_label))
     (generateColumnDataBySeries sampleTms
        ((sampleChart 70 400 (sampleModel [''A'', ''B''] [[0, 8]]))\<lparr> heightColumn := 20 \<rparr>)
        (sampleModel [''A'', ''B''] [[0, 8]])) = [Some 0, Some 30] \<and>
   (30::rat) > 20 \<and>
   map le_fill_opacity
     (renderLabels ((sampleChart 70 400 (sampleModel [''A'', ''B''] [[0, 8]]))\<lparr> heightColumn := 20 \<rparr>)
        (map the (generateColumnDataBySeries sampleTms
           ((sampleChart 70 400 (sampleModel [''A'', ''B''] [[0, 8]]))\<lparr> heightColumn := 20 \<rparr>)
           (sampleModel [''A'', ''B''] [[0, 8]])))
        (settings (sampleModel [''A'', ''B''] [[0, 8]]))) = [MaxOpacity, MaxOpacity]"
  by code_simp

text \<open>When the labels all have one height, as with a measurement that depends on the
  font alone, the first label stands for any of them.\<close>

lemma renderLabels_uniform_height:
  assumes "columnsData \<noteq> []" and "\<forall>col \<in> set columnsData. lbl_height (col_label col) = h"
  shows "map le_fill_opacity (renderLabels c columnsData st) =
     replicate (length columnsData)
       (if \<not> showLabels st \<or> (\<exists>col \<in> set columnsData. lbl_height (col_label col) > heightColumn c)
        then MinOpacity else MaxOpacity)"
proof -
  from assms obtain c0 rest where "columnsData = c0 # rest" by (cases columnsData) auto
  with assms(2) show ?thesis
    by (auto simp: renderLabels_def setOpacity_def Let_def map_replicate_const comp_def)
qed

subsection \<open>Selection\<close>

lemma setSelection_all:
  "setSelection i columns b =
     (let n = length columns; shift = n div 2;
          index = (if b then (if i < shift then i + shift else i - shift) else i);
          columns2 = (replicate n MinColumnOpacity)[i := MaxOpacity]
      in if b then columns2[index := MaxOpacity] else columns2)"
proof -
  have "map (\<lambda>(k, opacity). if Datum k \<noteq> columnElement n j \<or> Datum k \<noteq> columnElement n i
               then MinColumnOpacity else opacity) (enumerate m columns)
          = replicate (length columns) MinColumnOpacity" for n j m
    by (induction columns arbitrary: m) (simp_all add: columnElement_def)
  then show ?thesis by (simp add: setSelection_def Let_def)
qed

lemma setSelection_pair:
  assumes "j < length columns"
  shows "setSelection j columns True =
      map (\<lambda>k. if k = j \<or> k = (if j < length columns div 2 then j + length columns div 2
                                   else j - length columns div 2)
                then MaxOpacity else MinColumnOpacity)
        [0..<length columns]"
  using assms
  by (intro nth_equalityI) (auto simp: setSelection_all Let_def nth_list_update)

text \<open>
  C8, as amended. In a chart of two series, with c columns and half = c div 2, a click on
  column i leaves exactly columns i and mirror(i) at full opacity and every other column
  at the reduced opacity, where mirror(i) = i + half if i < half and i - half otherwise,
  and mirror(i) is a column. When the two series have the same number of values,
  mirror(mirror(i)) = i and a click on mirror(i) leaves the same opacities as a click on
  i.
\<close>

theorem setSelection_mirror:
  assumes "series dv = [s0, s1]"
    and "length columns = length (generateColumnDataBySeries tms c dv)"
    and "i < length columns"
  shows "(let half = length columns div 2;
              mirror = (\<lambda>j. if j < half then j + half else j - half)
          in setSelection i columns True =
               map (\<lambda>k. if k = i \<or> k = mirror i then MaxOpacity else MinColumnOpacity)
                 [0..<length columns] \<and>
             mirror i < length columns \<and>
             (length (ser_values s0) = length (ser_values s1) \<longrightarrow>
                mirror (mirror i) = i \<and>
                setSelection (mirror i) columns True = setSelection i columns True))"
proof -
  define half where "half = length columns div 2"
  define m where "m = (if i < half then i + half else i - half)"
  have m_lt: "m < length columns"
    using assms(3) by (auto simp: m_def half_def)
  have sel_i: "setSelection i columns True =
      map (\<lambda>k. if k = i \<or> k = m then MaxOpacity else MinColumnOpacity) [0..<length columns]"
    using setSelection_pair [OF assms(3)] by (simp add: m_def half_def)
  have inv: "(if m < half then m + half else m - half) = i
             \<and> setSelection m columns True = setSelection i columns True"
    if eq: "length (ser_values s0) = length (ser_values s1)"
  proof -
    have "length columns = 2 * length (ser_values s0)"
      using assms(1,2) eq by (simp add: generateColumnDataBySeries_length)
    then have "length columns = 2 * half" by (simp add: half_def)
    with assms(3) have mm: "(if m < half then m + half else m - half) = i"
      by (auto simp: m_def)
    have "setSelection m columns True =
      map (\<lambda>k. if k = m \<or> k = (if m < half then m + half else m - half)
                then MaxOpacity else MinColumnOpacity) [0..<length columns]"
      using setSelection_pair [OF m_lt] unfolding half_def .
    then have "setSelection m columns True =
      map (\<lambda>k. if k = m \<or> k = i then MaxOpacity else MinColumnOpacity) [0..<length columns]"
      by (simp only: mm)
    also have "\<dots> = setSelection i columns True"
      unfolding sel_i by (simp only: disj_commute)
    finally show ?thesis using mm by simp
  qed
  from sel_i m_lt inv show ?thesis
    unfolding Let_def half_def [symmetric] m_def [symmetric] by blast
qed

theorem setSelection_mirror_witness:
  "map ser_values (series twoSeries) = [[10, -5], [20, 15]] \<and>
   length [1, 1, 1, 1 :: rat]
     = length (generateColumnDataBySeries sampleTms (sampleChart 220 400 twoSeries) twoSeries) \<and>
   (0::nat) < length [1, 1, 1, 1 :: rat] \<and>
   length (ser_values (series twoSeries ! 0)) = length (ser_values (series twoSeries ! 1)) \<and>
   setSelection 0 [1, 1, 1, 1] True
     = [MaxOpacity, MinColumnOpacity, MaxOpacity, MinColumnOpacity] \<and>
   setSelection 2 [1, 1, 1, 1] True = setSelection 0 [1, 1, 1, 1] True"
proof -
  obtain s0 s1 where two: "series twoSeries = [s0, s1]"
    and v2: "ser_values s0 = [10, -5]" "ser_values s1 = [20, 15]"
    by (simp add: sampleModel_def parseSeries_def MaxSeries_def Let_def)
  have len: "length [1, 1, 1, 1 :: rat]
     = length (generateColumnDataBySeries sampleTms (sampleChart 220 400 twoSeries) twoSeries)"
    by (simp add: generateColumnDataBySeries_length two v2)
  have eq: "length (ser_values s0) = length (ser_values s1)" by (simp add: v2)
  have i: "(0::nat) < length [1, 1, 1, 1 :: rat]" by simp
  have m: "(if (0::nat) < length [1, 1, 1, 1 :: rat] div 2
             then 0 + length [1, 1, 1, 1 :: rat] div 2
             else 0 - length [1, 1, 1, 1 :: rat] div 2) = 2"
    by simp
  from setSelection_mirror [OF two len i] eq
  have "setSelection (if (0::nat) < length [1, 1, 1, 1 :: rat] div 2
                      then 0 + length [1, 1, 1, 1 :: rat] div 2
                      else 0 - length [1, 1, 1, 1 :: rat] div 2) [1, 1, 1, 1] True
          = setSelection 0 [1, 1, 1, 1] True"
    unfolding Let_def by blast
  then have b: "setSelection 2 [1, 1, 1, 1] True = setSelection 0 [1, 1, 1, 1] True"
    by (simp only: m)
  have a: "setSelection 0 [1, 1, 1, 1] True
             = [MaxOpacity, MinColumnOpacity, MaxOpacity, MinColumnOpacity]"
    by code_simp
  have s: "map ser_values (series twoSeries) = [[10, -5], [20, 15]]"
    by (simp add: two v2)
  have e: "length (ser_values (series twoSeries ! 0)) = length (ser_values (series twoSeries ! 1))"
    by (simp add: two v2)
  show ?thesis by (intro conjI) (fact s, fact len, fact i, fact e, fact a, fact b)
qed

text \<open>
  C8 as stated fails when the two series differ in length, which \<open>converter\<close> lets
  through: with two values in the first series and one in the second there are three
  columns, half = 1, the mirror of column 2 is column 1 and the mirror of column 1 is
  column 0; a click on column 2 leaves columns 1 and 2 at full opacity, a click on its
  mirror leaves columns 0 and 1.
\<close>

theorem setSelection_uneven_series_counterexample:
  "converter sampleHost (Some (sampleDataView [''A'', ''B''] [[10, -5], [20]]))
     = Inr (Some unevenSeries) \<and>
   map ser_values (series unevenSeries) = [[10, -5], [20]] \<and>
   length (generateColumnDataBySeries sampleTms (sampleChart 220 400 unevenSeries) unevenSeries)
     = 3 \<and>
   (if (2::nat) < 3 div 2 then 2 + 3 div 2 else 2 - 3 div 2) = (1::nat) \<and>
   (if (1::nat) < 3 div 2 then 1 + 3 div 2 else 1 - 3 div 2) = (0::nat) \<and>
   setSelection 2 [1, 1, 1] True = [MinColumnOpacity, MaxOpacity, MaxOpacity] \<and>
   setSelection 1 [1, 1, 1] True = [MaxOpacity, MaxOpacity, MinColumnOpacity] \<and>
   setSelection 1 [1, 1, 1] True \<noteq> setSelection 2 [1, 1, 1] True"
proof -
  have c: "converter sampleHost (Some (sampleDataView [''A'', ''B''] [[10, -5], [20]]))
             = Inr (Some unevenSeries)"
    by (simp add: converter_sample)
  have r: "map ser_values (series unevenSeries) = [[10, -5], [20]] \<and>
   length (generateColumnDataBySeries sampleTms (sampleChart 220 400 unevenSeries) unevenSeries)
     = 3 \<and>
   (if (2::nat) < 3 div 2 then 2 + 3 div 2 else 2 - 3 div 2) = (1::nat) \<and>
   (if (1::nat) < 3 div 2 then 1 + 3 div 2 else 1 - 3 div 2) = (0::nat) \<and>
   setSelection 2 [1, 1, 1] True = [MinColumnOpacity, MaxOpacity, MaxOpacity] \<and>
   setSelection 1 [1, 1, 1] True = [MaxOpacity, MaxOpacity, MinColumnOpacity] \<and>
   setSelection 1 [1, 1, 1] True \<noteq> setSelection 2 [1, 1, 1] True"
    by code_simp
  from c r show ?thesis by (intro conjI) blast+
qed

subsection \<open>The data normalizer\<close>

text \<open>What holds of \<open>converter\<close>: a missing part gives the null model and no error, and
  with every part present and at least one value column the model is assembled, with at
  most two series.\<close>

lemma converter_null_on_missing:
  "converter host None = Inr None"
  "dv_categorical dv = None \<Longrightarrow> converter host (Some dv) = Inr None"
  "dv_categorical dv = Some cat \<Longrightarrow> dvc_categories cat = None \<Longrightarrow>
     converter host (Some dv) = Inr None"
  "dv_categorical dv = Some cat \<Longrightarrow> dvc_categories cat = Some [] \<Longrightarrow>
     converter host (Some dv) = Inr None"
  "dv_categorical dv = Some cat \<Longrightarrow> dvc_categories cat = Some (c0 # rest) \<Longrightarrow>
     cat_source c0 = None \<Longrightarrow> converter host (Some dv) = Inr None"
  "dv_categorical dv = Some cat \<Longrightarrow> dvc_values cat = None \<Longrightarrow>
     converter host (Some dv) = Inr None"
  by (simp_all add: converter_def split: option.splits list.splits)

lemma parseSeries_values: "map ser_values (parseSeries host cols) = map val_values cols"
proof -
  have "map ser_values (map (\<lambda>(index, column).
            \<lparr> ser_fill = f index column, ser_name = g column, ser_values = val_values column,
              selectionId = h column \<rparr>) (enumerate n cols)) = map val_values cols" for f g h n
    by (induction cols arbitrary: n) simp_all
  then show ?thesis by (simp add: parseSeries_def)
qed

lemma parseSeries_length: "length (parseSeries host cols) = length cols"
  by (simp add: parseSeries_def)

lemma converter_assembles:
  assumes "dv_categorical dv = Some cat" and "dvc_categories cat = Some (c0 # rest)"
    and "cat_source c0 = Some src" and "dvc_values cat = Some vals" and "vals \<noteq> []"
  shows "\<exists>m. converter host (Some dv) = Inr (Some m) \<and>
           displayName m = mc_displayName src \<and> categories m = cat_values c0 \<and>
           map ser_values (series m) = map val_values (take 2 vals) \<and>
           length (series m) \<le> 2 \<and> length (legend m) = length (series m)"
proof -
  from assms(5) obtain v0 vs where t: "take MaxSeries vals = v0 # vs"
    by (cases vals) (simp_all add: MaxSeries_def)
  have "length (parseSeries host (take MaxSeries vals)) \<le> 2"
    by (simp add: parseSeries_length MaxSeries_def)
  moreover have "map ser_values (parseSeries host (take MaxSeries vals)) = map val_values (take 2 vals)"
    by (simp add: parseSeries_values MaxSeries_def)
  ultimately show ?thesis using assms(1-4) t
    by (simp add: converter_def Let_def getLegendData_def)
qed

lemma converter_throws:
  assumes "dv_categorical dv = Some cat" and "dvc_categories cat = Some (c0 # rest)"
    and "cat_source c0 = Some src" and "dvc_values cat = Some []"
  shows "converter host (Some dv) = Inl TypeError"
  using assms by (simp add: converter_def Let_def)

text \<open>
  C9 does not hold of the code. \<open>converter\<close> is not total: on a data view whose parts are
  all present and whose array of value columns is empty, it neither returns null nor a
  model, but throws a TypeError at \<^verbatim>\<open>values[0].values[0]\<close>.
\<close>

theorem converter_empty_values_throws:
  "converter sampleHost (Some (sampleDataView [''A'', ''B''] [])) = Inl TypeError"
  by (simp add: converter_def sampleDataView_def Let_def)

end
